theory Spec2Isabelle
  imports Complex_Main
begin

section \<open>Strings and numbers of the host language\<close>

text \<open>
  The program is the panel indicator of \<^verbatim>\<open>extension.ts\<close>. Its strings are
  modelled as HOL strings whose characters stand for the code units below 256; its
  numbers (the percentages of the usage API) are modelled as reals, so the rounding of
  binary floating point is not part of the model.
\<close>

definition is_space :: "char \<Rightarrow> bool" where
  \<comment> \<open>white space and line terminators, as \<^verbatim>\<open>trim\<close> and the regex class \<^verbatim>\<open>\s\<close> see them\<close>
  "is_space c = (c \<in> set [CHR 0x09, CHR 0x0A, CHR 0x0B, CHR 0x0C, CHR 0x0D, CHR 0x20, CHR 0xA0])"

definition trim :: "string \<Rightarrow> string" where
  "trim s = rev (dropWhile is_space (rev (dropWhile is_space s)))"

definition toLowerCase_char :: "char \<Rightarrow> char" where
  "toLowerCase_char c =
     (let n = of_char c :: nat
      in if (65 \<le> n \<and> n \<le> 90) \<or> (192 \<le> n \<and> n \<le> 222 \<and> n \<noteq> 215)
         then char_of (n + 32) else c)"

definition toLowerCase :: "string \<Rightarrow> string" where
  "toLowerCase s = map toLowerCase_char s"

definition is_word_char :: "char \<Rightarrow> bool" where
  \<comment> \<open>the regex class \<^verbatim>\<open>\w\<close>: ASCII letters, digits and the underscore\<close>
  "is_word_char c =
     (let n = of_char c :: nat
      in (48 \<le> n \<and> n \<le> 57) \<or> (65 \<le> n \<and> n \<le> 90) \<or> n = 95 \<or> (97 \<le> n \<and> n \<le> 122))"

definition toUpperCase_word_char :: "char \<Rightarrow> char" where
  \<comment> \<open>\<^verbatim>\<open>c.toUpperCase()\<close> for a character matched by \<^verbatim>\<open>\w\<close>\<close>
  "toUpperCase_word_char c =
     (let n = of_char c :: nat
      in if 97 \<le> n \<and> n \<le> 122 then char_of (n - 32) else c)"

definition digit_char :: "nat \<Rightarrow> char" where
  "digit_char d = char_of (48 + d)"

fun show_nat :: "nat \<Rightarrow> string" where
  "show_nat n = (if n < 10 then [digit_char n] else show_nat (n div 10) @ [digit_char (n mod 10)])"

declare show_nat.simps [simp del]

definition show_int :: "int \<Rightarrow> string" where
  \<comment> \<open>the decimal text of an integral number inside a template literal\<close>
  "show_int i = (if i < 0 then CHR ''-'' # show_nat (nat (- i)) else show_nat (nat i))"

definition Math_round :: "real \<Rightarrow> int" where
  \<comment> \<open>\<^verbatim>\<open>Math.round\<close>: the nearest integer, a tie going up\<close>
  "Math_round x = \<lfloor>x + 1 / 2\<rfloor>"

definition toFixed0 :: "real \<Rightarrow> string" where
  \<comment> \<open>\<^verbatim>\<open>x.toFixed(0)\<close>: the sign first, then the magnitude rounded, a tie going up\<close>
  "toFixed0 x =
     (if x < 0 then CHR ''-'' # show_nat (nat \<lfloor>- x + 1 / 2\<rfloor>) else show_nat (nat \<lfloor>x + 1 / 2\<rfloor>))"

definition padStart2 :: "string \<Rightarrow> string" where
  \<comment> \<open>\<^verbatim>\<open>s.padStart(2, "0")\<close>\<close>
  "padStart2 s = replicate (2 - length s) CHR ''0'' @ s"

definition truthy :: "string option \<Rightarrow> bool" where
  \<comment> \<open>\<^verbatim>\<open>if (token)\<close> on a value of type \<^verbatim>\<open>string | null\<close>\<close>
  "truthy t = (case t of None \<Rightarrow> False | Some s \<Rightarrow> s \<noteq> [])"

section \<open>API types\<close>

text \<open>
  The interfaces of the usage payload. An optional field is an option: \<open>None\<close> is a
  field that is missing or null, which the code never tells apart (it reads these fields
  through \<^verbatim>\<open>??\<close>, \<^verbatim>\<open>?.\<close> and truthiness only).
\<close>

record QuotaSnapshot =
  percent_remaining :: "real option"
  percentRemaining :: "real option"

record QuotaSnapshots =
  premium_interactions :: "QuotaSnapshot option"
  premiumInteractions :: "QuotaSnapshot option"
  chat :: "QuotaSnapshot option"

record CopilotUsageData =
  copilot_plan :: "string option"
  copilotPlan :: "string option"
  quota_snapshots :: "QuotaSnapshots option"
  quotaSnapshots :: "QuotaSnapshots option"

section \<open>Token discovery helpers\<close>

text \<open>
  The decoded credential documents, typed as the extractors cast them. An object is the
  list of its entries in the order \<^verbatim>\<open>Object.keys\<close> enumerates them; the document
  \<open>None\<close> is the JSON value null.
\<close>

record token_entry =
  oauth_token :: "string option"

record oauth_entry =
  accessToken :: "string option"

type_synonym hosts_doc = "(string \<times> token_entry option) list option"

type_synonym oauth_doc = "(string \<times> oauth_entry option list option) list option"

definition readToken_hostsJson :: "hosts_doc \<Rightarrow> string option" where
  "readToken_hostsJson content =
     (case content of
        None \<Rightarrow> None
      | Some data \<Rightarrow>
          (case map_of data ''github.com'' of
             None \<Rightarrow> None
           | Some None \<Rightarrow> None
           | Some (Some e) \<Rightarrow> oauth_token e))"

fun apps_loop :: "(string \<times> token_entry option) list \<Rightarrow> string option" where
  "apps_loop [] = None"
| "apps_loop ((key, v) # rest) =
     (let t = (case v of None \<Rightarrow> None | Some e \<Rightarrow> oauth_token e)
      in if truthy t then t else apps_loop rest)"

definition readToken_appsJson :: "hosts_doc \<Rightarrow> string option" where
  "readToken_appsJson content =
     (case content of None \<Rightarrow> None | Some data \<Rightarrow> apps_loop data)"

fun oauth_entries_loop :: "oauth_entry option list \<Rightarrow> string option" where
  "oauth_entries_loop [] = None"
| "oauth_entries_loop (entry # rest) =
     (let t = (case entry of None \<Rightarrow> None | Some e \<Rightarrow> accessToken e)
      in if truthy t then t else oauth_entries_loop rest)"

fun oauth_loop :: "(string \<times> oauth_entry option list option) list \<Rightarrow> string option" where
  "oauth_loop [] = None"
| "oauth_loop ((key, v) # rest) =
     (case v of
        None \<Rightarrow> oauth_loop rest
      | Some entries \<Rightarrow>
          (case oauth_entries_loop entries of
             Some t \<Rightarrow> Some t
           | None \<Rightarrow> oauth_loop rest))"

definition readToken_oauthJson :: "oauth_doc \<Rightarrow> string option" where
  "readToken_oauthJson content =
     (case content of None \<Rightarrow> None | Some data \<Rightarrow> oauth_loop data)"

text \<open>
  The legacy YAML of the GitHub CLI is searched with the regular expression
  \<^verbatim>\<open>/oauth_token:\s*(\S+)/\<close>: the leftmost position where the marker is followed,
  after any white space, by at least one character that is not white space.
\<close>

fun ghYml_match :: "string \<Rightarrow> string option" where
  "ghYml_match [] = None"
| "ghYml_match (c # cs) =
     (if take 12 (c # cs) = ''oauth_token:''
      then (let rest = dropWhile is_space (drop 12 (c # cs))
            in if rest = [] then ghYml_match cs
               else Some (takeWhile (\<lambda>x. \<not> is_space x) rest))
      else ghYml_match cs)"

definition readToken_ghYml :: "string \<Rightarrow> string option" where
  "readToken_ghYml content = ghYml_match content"

definition CHAT_LIMITED_PLANS :: "string set" where
  "CHAT_LIMITED_PLANS = {''free'', ''copilot_free'', ''copilot-free''}"

section \<open>The panel indicator\<close>

text \<open>
  What a refresh does to the outside world, in the order it does it: the processes it
  spawns, the files it loads, the setting it reads, the request it sends, and the three
  entry points through which it changes what the panel shows. \<open>Destroy\<close> marks the
  moment the host tears the indicator down.
\<close>

datatype event =
    SubprocessNew "string list"
  | LoadContents "string list"
  | GetString string
  | SendAndRead "(string \<times> string) list"
  | Destroy
  | ShowSetupState string string
  | ShowNetworkError string
  | UpdateUsageDisplay

fun is_ui_event :: "event \<Rightarrow> bool" where
  "is_ui_event (ShowSetupState h b) = True"
| "is_ui_event (ShowNetworkError d) = True"
| "is_ui_event UpdateUsageDisplay = True"
| "is_ui_event e = False"

fun is_fetch_event :: "event \<Rightarrow> bool" where
  "is_fetch_event (SendAndRead hs) = True"
| "is_fetch_event e = False"

record widget =
  width :: int
  style_classes :: "string set"
  visible :: bool

record UsageRowResult =
  bar :: widget
  percentLabel :: string
  usedLabel :: string
  item_visible :: bool

record indicator =
  menuState :: "string option"
  destroyed :: bool
  warningDot :: widget
  setupItem_visible :: bool
  setupSep_visible :: bool
  openSettingsItem_visible :: bool
  setupHeading :: string
  setupBody :: string
  headerItem_visible :: bool
  planLabel :: string
  premiumResult :: UsageRowResult
  chatResult :: UsageRowResult
  chatSep_visible :: bool
  footerItem_visible :: bool
  updatedLabel :: string
  settingsItem_visible :: bool
  trace :: "event list"

definition emit :: "event \<Rightarrow> indicator \<Rightarrow> indicator" where
  "emit e s = s\<lparr>trace := trace s @ [e]\<rparr>"

definition add_style_class_name :: "string \<Rightarrow> widget \<Rightarrow> widget" where
  "add_style_class_name c w = w\<lparr>style_classes := insert c (style_classes w)\<rparr>"

definition remove_style_class_name :: "string \<Rightarrow> widget \<Rightarrow> widget" where
  "remove_style_class_name c w = w\<lparr>style_classes := style_classes w - {c}\<rparr>"

subsection \<open>State switching\<close>

definition setMenuState :: "string \<Rightarrow> indicator \<Rightarrow> indicator" where
  "setMenuState state s =
     (if menuState s = Some state then s
      else
        (let isSetup = (state = ''setup'');
             s1 = s\<lparr>menuState := Some state,
                     setupItem_visible := isSetup,
                     setupSep_visible := isSetup,
                     openSettingsItem_visible := isSetup,
                     headerItem_visible := \<not> isSetup,
                     premiumResult := (premiumResult s)\<lparr>item_visible := \<not> isSetup\<rparr>,
                     footerItem_visible := \<not> isSetup\<rparr>;
             s2 = (if isSetup
                   then s1\<lparr>chatResult := (chatResult s1)\<lparr>item_visible := False\<rparr>,
                            chatSep_visible := False\<rparr>
                   else s1)
         in s2\<lparr>settingsItem_visible := True\<rparr>))"

definition isLimited :: "string option \<Rightarrow> bool" where
  \<comment> \<open>the local constant of \<^verbatim>\<open>_updateChatVisibility\<close>\<close>
  "isLimited plan = (case plan of None \<Rightarrow> False | Some p \<Rightarrow> toLowerCase p \<in> CHAT_LIMITED_PLANS)"

definition updateChatVisibility :: "string option \<Rightarrow> indicator \<Rightarrow> indicator" where
  "updateChatVisibility plan s =
     s\<lparr>chatResult := (chatResult s)\<lparr>item_visible := isLimited plan\<rparr>,
       chatSep_visible := isLimited plan\<rparr>"

subsection \<open>Display helpers\<close>

definition showSetupState :: "string \<Rightarrow> string \<Rightarrow> indicator \<Rightarrow> indicator" where
  "showSetupState heading body s =
     (let s1 = setMenuState ''setup'' (emit (ShowSetupState heading body) s)
      in s1\<lparr>setupHeading := heading,
             setupBody := body,
             warningDot :=
               add_style_class_name ''dot-high''
                 (remove_style_class_name ''dot-critical'' ((warningDot s1)\<lparr>visible := True\<rparr>))\<rparr>)"

definition showNetworkError :: "string \<Rightarrow> indicator \<Rightarrow> indicator" where
  "showNetworkError detail s =
     (let s1 = emit (ShowNetworkError detail) s
      in s1\<lparr>updatedLabel := ''Error: '' @ detail,
             warningDot :=
               add_style_class_name ''dot-high''
                 (remove_style_class_name ''dot-critical'' ((warningDot s1)\<lparr>visible := True\<rparr>))\<rparr>)"

fun capitalise_words :: "bool \<Rightarrow> string \<Rightarrow> string" where
  \<comment> \<open>\<^verbatim>\<open>replace(/\b\w/g, c => c.toUpperCase())\<close>; the flag: the character before is a word character\<close>
  "capitalise_words prev [] = []"
| "capitalise_words prev (c # cs) =
     (if is_word_char c \<and> \<not> prev then toUpperCase_word_char c else c)
       # capitalise_words (is_word_char c) cs"

definition formatPlan :: "string \<Rightarrow> string" where
  "formatPlan raw =
     capitalise_words False
       (map (\<lambda>c. if c = CHR ''_'' \<or> c = CHR ''-'' then CHR '' '' else c) raw)"

subsection \<open>Progress bar\<close>

definition clampedPct :: "real \<Rightarrow> real" where
  \<comment> \<open>the local constant of \<^verbatim>\<open>_updateBar\<close>\<close>
  "clampedPct pct = min 100 (max 0 pct)"

definition TRACK_PX :: real where
  "TRACK_PX = 244"

definition usage_class :: "real \<Rightarrow> string" where
  "usage_class c =
     (if c \<ge> 90 then ''usage-critical''
      else if c \<ge> 70 then ''usage-high''
      else if c \<ge> 40 then ''usage-medium''
      else ''usage-low'')"

definition updateBar :: "widget \<Rightarrow> real \<Rightarrow> widget" where
  "updateBar b pct =
     (let c = clampedPct pct;
          b1 = b\<lparr>width := Math_round ((c / 100) * TRACK_PX)\<rparr>;
          b2 = foldl (\<lambda>w cls. remove_style_class_name cls w) b1
                 [''usage-low'', ''usage-medium'', ''usage-high'', ''usage-critical'']
      in add_style_class_name (usage_class c) b2)"

subsection \<open>The usage display\<close>

definition payload_plan :: "CopilotUsageData \<Rightarrow> string option" where
  \<comment> \<open>the local constant \<^verbatim>\<open>plan\<close> of \<^verbatim>\<open>_updateUsageDisplay\<close>\<close>
  "payload_plan data =
     (case copilot_plan data of Some p \<Rightarrow> Some p | None \<Rightarrow> copilotPlan data)"

definition payload_snapshots :: "CopilotUsageData \<Rightarrow> QuotaSnapshots option" where
  \<comment> \<open>the local constant \<^verbatim>\<open>snapshots\<close>\<close>
  "payload_snapshots data =
     (case quota_snapshots data of Some q \<Rightarrow> Some q | None \<Rightarrow> quotaSnapshots data)"

definition payload_premium :: "CopilotUsageData \<Rightarrow> QuotaSnapshot option" where
  \<comment> \<open>the local constant \<^verbatim>\<open>premium\<close>\<close>
  "payload_premium data =
     (case payload_snapshots data of
        None \<Rightarrow> None
      | Some q \<Rightarrow>
          (case premium_interactions q of Some p \<Rightarrow> Some p | None \<Rightarrow> premiumInteractions q))"

definition payload_chat :: "CopilotUsageData \<Rightarrow> QuotaSnapshot option" where
  \<comment> \<open>the local constant \<^verbatim>\<open>chat\<close>\<close>
  "payload_chat data =
     (case payload_snapshots data of None \<Rightarrow> None | Some q \<Rightarrow> chat q)"

definition pctRemaining :: "QuotaSnapshot option \<Rightarrow> real option" where
  "pctRemaining snap =
     (case snap of
        None \<Rightarrow> None
      | Some q \<Rightarrow>
          (case percent_remaining q of Some r \<Rightarrow> Some r | None \<Rightarrow> percentRemaining q))"

definition update_row :: "real option \<Rightarrow> UsageRowResult \<Rightarrow> UsageRowResult" where
  \<comment> \<open>the block written out twice in \<^verbatim>\<open>_updateUsageDisplay\<close>, for the premium and the chat row\<close>
  "update_row remaining row =
     (case remaining of
        Some r \<Rightarrow>
          (let used = 100 - r
           in row\<lparr>bar := updateBar (bar row) used,
                  usedLabel := show_int (Math_round used) @ ''%'',
                  percentLabel := toFixed0 r @ ''% remaining''\<rparr>)
      | None \<Rightarrow>
          row\<lparr>bar := updateBar (bar row) 0,
              usedLabel := ''unlimited'',
              percentLabel := []\<rparr>)"

definition update_warningDot :: "real option \<Rightarrow> widget \<Rightarrow> widget" where
  \<comment> \<open>the panel-icon block at the end of \<^verbatim>\<open>_updateUsageDisplay\<close>\<close>
  "update_warningDot premR dot =
     (case premR of
        Some r \<Rightarrow>
          (if r \<le> 10
           then add_style_class_name (if r \<le> 0 then ''dot-critical'' else ''dot-high'')
                  (dot\<lparr>visible := True\<rparr>)
           else remove_style_class_name ''dot-high''
                  (remove_style_class_name ''dot-critical'' (dot\<lparr>visible := False\<rparr>)))
      | None \<Rightarrow>
          remove_style_class_name ''dot-high''
            (remove_style_class_name ''dot-critical'' (dot\<lparr>visible := False\<rparr>)))"

definition updateUsageDisplay :: "nat \<times> nat \<Rightarrow> CopilotUsageData \<Rightarrow> indicator \<Rightarrow> indicator" where
  \<comment> \<open>the first argument is the wall clock's hours and minutes, read by \<^verbatim>\<open>new Date()\<close>\<close>
  "updateUsageDisplay now data s0 =
     (let s = emit UpdateUsageDisplay s0;
          plan = payload_plan data;
          premium = payload_premium data;
          chat = payload_chat data
      in if \<not> truthy plan \<and> premium = None \<and> chat = None
         then showSetupState ''Copilot Data Unavailable''
                ''API returned no usage data. Your token may lack Copilot permissions.'' s
         else
           (let s1 = setMenuState ''usage'' s;
                s2 = s1\<lparr>planLabel := (case plan of None \<Rightarrow> [] | Some p \<Rightarrow> if p = [] then [] else formatPlan p)\<rparr>;
                s3 = updateChatVisibility plan s2;
                premR = pctRemaining premium;
                s4 = s3\<lparr>premiumResult := update_row premR (premiumResult s3)\<rparr>;
                chatR = pctRemaining chat;
                s5 = s4\<lparr>chatResult := update_row chatR (chatResult s4)\<rparr>;
                s6 = s5\<lparr>warningDot := update_warningDot premR (warningDot s5)\<rparr>
            in s6\<lparr>updatedLabel :=
                    ''Updated '' @ padStart2 (show_nat (fst now)) @ '':'' @ padStart2 (show_nat (snd now))\<rparr>))"

subsection \<open>Menu construction\<close>

definition addUsageRow :: UsageRowResult where
  \<comment> \<open>a fresh row; no width has been set on the bar yet\<close>
  "addUsageRow =
     \<lparr>bar = \<lparr>width = 0, style_classes = {''copilot-progress-bar'', ''usage-low''}, visible = True\<rparr>,
      percentLabel = [], usedLabel = [], item_visible = True\<rparr>"

definition buildMenu :: indicator where
  \<comment> \<open>the indicator once its constructor has returned: \<^verbatim>\<open>_buildMenu\<close> ends by switching
      to the setup state, and the class-field initialiser of \<^verbatim>\<open>_menuState\<close>, which runs
      after \<^verbatim>\<open>_init\<close>, then resets the recorded state to null\<close>
  "buildMenu =
     (setMenuState ''setup''
       \<lparr>menuState = None,
        destroyed = False,
        warningDot = \<lparr>width = 0, style_classes = {''copilot-warning-dot''}, visible = False\<rparr>,
        setupItem_visible = True,
        setupSep_visible = True,
        openSettingsItem_visible = True,
        setupHeading = ''GitHub Token Required'',
        setupBody = ''No credentials found. Open Settings to add your token.'',
        headerItem_visible = True,
        planLabel = [],
        premiumResult = addUsageRow,
        chatResult = addUsageRow,
        chatSep_visible = True,
        footerItem_visible = True,
        updatedLabel = ''Not yet refreshed'',
        settingsItem_visible = True,
        trace = []\<rparr>)\<lparr>menuState := None\<rparr>"

section \<open>The refresh cycle\<close>

text \<open>
  Everything a refresh reads from outside the indicator. A subprocess either fails (to
  spawn or to finish) or delivers its standard output, which may be null. A file load
  either has no source object, fails (to load, to decode or to parse), or delivers the
  decoded content. The request either calls back without a session, fails with a message,
  or delivers a status and a body. A body is empty, or fails to decode or parse with the
  message of the exception raised, or parses to null, on which the display code raises at
  its first field access with the message carried, or parses to a payload.
\<close>

datatype subprocess_outcome = SubprocessThrows | Stdout "string option"

datatype 'a load_outcome = NoSourceObject | LoadThrows | Content 'a

datatype body_outcome = NoData | ParseThrows string | ParsedNull string | Parsed CopilotUsageData

datatype http_outcome = NoSourceSession | FinishThrows string | Response nat body_outcome

record env =
  home :: string
  gh_auth_token :: subprocess_outcome
  gh_hosts_yml :: "string load_outcome"
  copilot_hosts_json :: "hosts_doc load_outcome"
  copilot_apps_json :: "hosts_doc load_outcome"
  copilot_oauth_json :: "oauth_doc load_outcome"
  github_token :: string
  send_and_read :: "string \<Rightarrow> http_outcome"
  clock :: "nat \<times> nat"

text \<open>
  The indicator runs on the host's single thread, so the host can tear it down only while
  a refresh is suspended: during one of the five awaited probes or while the request is
  in flight. A refresh is run against a teardown schedule: no teardown, or a teardown
  during one named suspension.
\<close>

datatype suspension =
    AwaitGhAuthToken
  | AwaitGhHostsYml
  | AwaitHostsJson
  | AwaitAppsJson
  | AwaitOauthJson
  | AwaitResponse

definition destroy :: "indicator \<Rightarrow> indicator" where
  "destroy s = emit Destroy (s\<lparr>destroyed := True\<rparr>)"

definition suspended :: "suspension \<Rightarrow> suspension option \<Rightarrow> indicator \<Rightarrow> indicator" where
  "suspended p teardown s = (if teardown = Some p then destroy s else s)"

definition runSubprocessToken :: "subprocess_outcome \<Rightarrow> string option" where
  "runSubprocessToken r =
     (case r of
        SubprocessThrows \<Rightarrow> None
      | Stdout None \<Rightarrow> None
      | Stdout (Some out) \<Rightarrow> (if trim out = [] then None else Some (trim out)))"

definition readFileToken :: "'a load_outcome \<Rightarrow> ('a \<Rightarrow> string option) \<Rightarrow> string option" where
  "readFileToken loaded extractFn =
     (case loaded of
        NoSourceObject \<Rightarrow> None
      | LoadThrows \<Rightarrow> None
      | Content c \<Rightarrow> extractFn c)"

subsection \<open>API fetch\<close>

definition request_headers :: "string \<Rightarrow> (string \<times> string) list" where
  "request_headers token =
     [(''Authorization'', ''token '' @ token),
      (''Accept'', ''application/json''),
      (''Editor-Version'', ''vscode/1.96.2''),
      (''Editor-Plugin-Version'', ''copilot-chat/0.26.7''),
      (''User-Agent'', ''GitHubCopilotChat/0.26.7''),
      (''X-Github-Api-Version'', ''2025-04-01'')]"

definition fetchUsage :: "env \<Rightarrow> suspension option \<Rightarrow> string \<Rightarrow> indicator \<Rightarrow> indicator" where
  "fetchUsage e teardown token s0 =
     (let s = suspended AwaitResponse teardown (emit (SendAndRead (request_headers token)) s0)
      in case send_and_read e token of
           NoSourceSession \<Rightarrow> s
         | FinishThrows msg \<Rightarrow> showNetworkError msg s
         | Response status_code body \<Rightarrow>
             if status_code = 401 \<or> status_code = 403
             then showSetupState ''Token Invalid or Expired''
                    ''The stored token was rejected. Update it in Settings.'' s
             else if status_code \<noteq> 200
             then showNetworkError (''HTTP '' @ show_nat status_code) s
             else (case body of
                     NoData \<Rightarrow> showNetworkError ''Empty response from API'' s
                   | ParseThrows msg \<Rightarrow> showNetworkError msg s
                   | ParsedNull msg \<Rightarrow> showNetworkError msg (emit UpdateUsageDisplay s)
                   | Parsed data \<Rightarrow> updateUsageDisplay (clock e) data s))"

subsection \<open>Token resolution\<close>

definition resolveToken :: "env \<Rightarrow> suspension option \<Rightarrow> indicator \<Rightarrow> indicator" where
  "resolveToken e teardown s0 =
     (let s1 = suspended AwaitGhAuthToken teardown
                 (emit (SubprocessNew [''gh'', ''auth'', ''token'']) s0);
          token1 = runSubprocessToken (gh_auth_token e)
      in if destroyed s1 then s1
         else if truthy token1 then fetchUsage e teardown (the token1) s1
         else
     (let s2 = suspended AwaitGhHostsYml teardown
                 (emit (LoadContents [home e, ''.config'', ''gh'', ''hosts.yml'']) s1);
          token2 = readFileToken (gh_hosts_yml e) readToken_ghYml
      in if destroyed s2 then s2
         else if truthy token2 then fetchUsage e teardown (the token2) s2
         else
     (let s3 = suspended AwaitHostsJson teardown
                 (emit (LoadContents [home e, ''.config'', ''github-copilot'', ''hosts.json'']) s2);
          token3 = readFileToken (copilot_hosts_json e) readToken_hostsJson
      in if destroyed s3 then s3
         else if truthy token3 then fetchUsage e teardown (the token3) s3
         else
     (let s4 = suspended AwaitAppsJson teardown
                 (emit (LoadContents [home e, ''.config'', ''github-copilot'', ''apps.json'']) s3);
          token4 = readFileToken (copilot_apps_json e) readToken_appsJson
      in if destroyed s4 then s4
         else if truthy token4 then fetchUsage e teardown (the token4) s4
         else
     (let s5 = suspended AwaitOauthJson teardown
                 (emit (LoadContents [home e, ''.config'', ''github-copilot'', ''oauth.json'']) s4);
          token5 = readFileToken (copilot_oauth_json e) readToken_oauthJson
      in if destroyed s5 then s5
         else if truthy token5 then fetchUsage e teardown (the token5) s5
         else
     (let s6 = emit (GetString ''github-token'') s5;
          token6 = trim (github_token e)
      in if token6 \<noteq> [] then fetchUsage e teardown token6 s6
         else showSetupState ''GitHub Token Required''
                ''No credentials found. Open Settings to add your token.'' s6))))))"

definition refreshUsage :: "env \<Rightarrow> suspension option \<Rightarrow> indicator \<Rightarrow> indicator" where
  "refreshUsage e teardown s = resolveToken e teardown s"

section \<open>The probe chain, seen from outside\<close>

text \<open>
  The six probes in the order the resolver runs them: what each yields in a given
  environment, and the event by which each shows in the trace.
\<close>

definition probe_results :: "env \<Rightarrow> string option list" where
  "probe_results e =
     [runSubprocessToken (gh_auth_token e),
      readFileToken (gh_hosts_yml e) readToken_ghYml,
      readFileToken (copilot_hosts_json e) readToken_hostsJson,
      readFileToken (copilot_apps_json e) readToken_appsJson,
      readFileToken (copilot_oauth_json e) readToken_oauthJson,
      Some (trim (github_token e))]"

definition probe_events :: "env \<Rightarrow> event list" where
  "probe_events e =
     [SubprocessNew [''gh'', ''auth'', ''token''],
      LoadContents [home e, ''.config'', ''gh'', ''hosts.yml''],
      LoadContents [home e, ''.config'', ''github-copilot'', ''hosts.json''],
      LoadContents [home e, ''.config'', ''github-copilot'', ''apps.json''],
      LoadContents [home e, ''.config'', ''github-copilot'', ''oauth.json''],
      GetString ''github-token'']"

text \<open>
  Observations on a finished cycle: whether the item visibilities agree with the menu
  state, and which events of a trace are not calls into the display, or are such calls
  made after the teardown.
\<close>

definition menu_consistent :: "indicator \<Rightarrow> bool" where
  \<comment> \<open>the item visibilities agree with the recorded menu state; a state not yet recorded
      shows the setup items, as the constructor leaves them\<close>
  "menu_consistent s =
     (let isSetup = (case menuState s of None \<Rightarrow> True | Some st \<Rightarrow> st = ''setup'')
      in setupItem_visible s = isSetup \<and>
         setupSep_visible s = isSetup \<and>
         openSettingsItem_visible s = isSetup \<and>
         headerItem_visible s = (\<not> isSetup) \<and>
         item_visible (premiumResult s) = (\<not> isSetup) \<and>
         footerItem_visible s = (\<not> isSetup) \<and>
         (if isSetup then \<not> item_visible (chatResult s) \<and> \<not> chatSep_visible s else True))"

definition io_events :: "event list \<Rightarrow> event list" where
  \<comment> \<open>the events of a trace that are not calls into the display\<close>
  "io_events evs = filter (\<lambda>ev. \<not> is_ui_event ev) evs"

fun ui_after_destroy :: "event list \<Rightarrow> event list" where
  \<comment> \<open>the calls into the display that a trace records after the teardown\<close>
  "ui_after_destroy [] = []"
| "ui_after_destroy (ev # evs) =
     (if ev = Destroy then filter is_ui_event evs else ui_after_destroy evs)"

section \<open>Sample environments and payloads\<close>

text \<open>
  Concrete inputs on which the theorems below are exercised: response bodies in either
  spelling, and environments that place a token in one probe or in none.
\<close>

definition example_env :: env where
  \<comment> \<open>no GitHub CLI, no legacy file; a token in hosts.json, another in apps.json, a manual one\<close>
  "example_env =
     \<lparr>home = ''/home/u'',
      gh_auth_token = SubprocessThrows,
      gh_hosts_yml = NoSourceObject,
      copilot_hosts_json = Content (Some [(''github.com'', Some \<lparr>oauth_token = Some ''gho_hosts''\<rparr>)]),
      copilot_apps_json = Content (Some [(''github.com:app'', Some \<lparr>oauth_token = Some ''gho_apps''\<rparr>)]),
      copilot_oauth_json = LoadThrows,
      github_token = '' ghp_manual '',
      send_and_read = (\<lambda>token. Response 401 NoData),
      clock = (9, 5)\<rparr>"

definition empty_env :: env where
  \<comment> \<open>nothing to find: the CLI prints a blank line, the files are absent or hold no token,
      the manual token is blank\<close>
  "empty_env =
     \<lparr>home = ''/home/u'',
      gh_auth_token = Stdout (Some [CHR 0x0A]),
      gh_hosts_yml = Content ''github.com: user: octocat'',
      copilot_hosts_json = Content (Some []),
      copilot_apps_json = Content None,
      copilot_oauth_json = NoSourceObject,
      github_token = ''  '',
      send_and_read = (\<lambda>token. FinishThrows ''unreachable''),
      clock = (9, 5)\<rparr>"

definition cancelled_env :: env where
  \<comment> \<open>the CLI prints a token; the request, aborted by the teardown, fails\<close>
  "cancelled_env =
     \<lparr>home = ''/home/u'',
      gh_auth_token = Stdout (Some (''gho_cli'' @ [CHR 0x0A])),
      gh_hosts_yml = NoSourceObject,
      copilot_hosts_json = NoSourceObject,
      copilot_apps_json = NoSourceObject,
      copilot_oauth_json = NoSourceObject,
      github_token = [],
      send_and_read = (\<lambda>token. FinishThrows ''Operation was cancelled''),
      clock = (9, 5)\<rparr>"


definition pro_payload :: CopilotUsageData where
  \<comment> \<open>the body \<^verbatim>\<open>{"copilot_plan":"pro","quota_snapshots":{"premium_interactions":{"percent_remaining":80}}}\<close>\<close>
  "pro_payload =
     \<lparr>copilot_plan = Some ''pro'', copilotPlan = None,
      quota_snapshots =
        Some \<lparr>premium_interactions = Some \<lparr>percent_remaining = Some 80, percentRemaining = None\<rparr>,
              premiumInteractions = None, chat = None\<rparr>,
      quotaSnapshots = None\<rparr>"

definition usage_shown :: indicator where
  \<comment> \<open>the indicator after a first successful refresh\<close>
  "usage_shown = updateUsageDisplay (9, 5) pro_payload buildMenu"


definition both_payload :: CopilotUsageData where
  \<comment> \<open>a body that spells every field both ways, with different values\<close>
  "both_payload =
     \<lparr>copilot_plan = Some ''pro'', copilotPlan = Some ''free'',
      quota_snapshots =
        Some \<lparr>premium_interactions = Some \<lparr>percent_remaining = Some 80, percentRemaining = Some 10\<rparr>,
              premiumInteractions = Some \<lparr>percent_remaining = Some 30, percentRemaining = None\<rparr>,
              chat = None\<rparr>,
      quotaSnapshots =
        Some \<lparr>premium_interactions = Some \<lparr>percent_remaining = Some 50, percentRemaining = None\<rparr>,
              premiumInteractions = None,
              chat = Some \<lparr>percent_remaining = Some 60, percentRemaining = None\<rparr>\<rparr>\<rparr>"

definition camel_payload :: CopilotUsageData where
  \<comment> \<open>the body of \<open>pro_payload\<close> in the other spelling\<close>
  "camel_payload =
     \<lparr>copilot_plan = None, copilotPlan = Some ''pro'',
      quota_snapshots = None,
      quotaSnapshots =
        Some \<lparr>premium_interactions = None,
              premiumInteractions = Some \<lparr>percent_remaining = None, percentRemaining = Some 80\<rparr>,
              chat = None\<rparr>\<rparr>"

definition over_payload :: CopilotUsageData where
  \<comment> \<open>a free plan that has overdrawn its premium quota and used up a quarter of its chat quota\<close>
  "over_payload =
     \<lparr>copilot_plan = Some ''Free'', copilotPlan = None,
      quota_snapshots =
        Some \<lparr>premium_interactions = Some \<lparr>percent_remaining = Some (- 20), percentRemaining = None\<rparr>,
              premiumInteractions = None,
              chat = Some \<lparr>percent_remaining = Some 75, percentRemaining = None\<rparr>\<rparr>,
      quotaSnapshots = None\<rparr>"

definition free_payload :: CopilotUsageData where
  \<comment> \<open>a free plan, named as the API may well name it, with both quotas metered\<close>
  "free_payload =
     \<lparr>copilot_plan = Some ''Copilot_Free'', copilotPlan = None,
      quota_snapshots =
        Some \<lparr>premium_interactions = Some \<lparr>percent_remaining = Some 100, percentRemaining = None\<rparr>,
              premiumInteractions = None,
              chat = Some \<lparr>percent_remaining = Some 0, percentRemaining = None\<rparr>\<rparr>,
      quotaSnapshots = None\<rparr>"

definition blank_env :: env where
  \<comment> \<open>the CLI prints blanks, the manual token is blank, and hosts.json holds a token of two blanks\<close>
  "blank_env =
     \<lparr>home = ''/home/u'',
      gh_auth_token = Stdout (Some (''  '' @ [CHR 0x0A])),
      gh_hosts_yml = NoSourceObject,
      copilot_hosts_json = Content (Some [(''github.com'', Some \<lparr>oauth_token = Some ''  ''\<rparr>)]),
      copilot_apps_json = NoSourceObject,
      copilot_oauth_json = NoSourceObject,
      github_token = ''   '',
      send_and_read = (\<lambda>token. Response 401 NoData),
      clock = (9, 5)\<rparr>"

definition blank_apps_env :: env where
  \<comment> \<open>apps.json holds an empty token, then a token of one blank, then an ordinary one\<close>
  "blank_apps_env =
     \<lparr>home = ''/home/u'',
      gh_auth_token = SubprocessThrows,
      gh_hosts_yml = NoSourceObject,
      copilot_hosts_json = Content (Some [(''github.com'', Some \<lparr>oauth_token = Some []\<rparr>)]),
      copilot_apps_json =
        Content (Some [(''a'', Some \<lparr>oauth_token = Some []\<rparr>),
                       (''b'', Some \<lparr>oauth_token = Some '' ''\<rparr>),
                       (''c'', Some \<lparr>oauth_token = Some ''gho_later''\<rparr>)]),
      copilot_oauth_json = NoSourceObject,
      github_token = ''ghp_manual'',
      send_and_read = (\<lambda>token. Response 401 NoData),
      clock = (9, 5)\<rparr>"

definition blank_oauth_env :: env where
  \<comment> \<open>oauth.json holds a token of one blank followed by an ordinary one\<close>
  "blank_oauth_env =
     \<lparr>home = ''/home/u'',
      gh_auth_token = SubprocessThrows,
      gh_hosts_yml = NoSourceObject,
      copilot_hosts_json = NoSourceObject,
      copilot_apps_json = Content None,
      copilot_oauth_json =
        Content (Some [(''x'', None),
                       (''https://github.com/login/oauth'',
                        Some [None, Some \<lparr>accessToken = Some '' ''\<rparr>,
                              Some \<lparr>accessToken = Some ''gho_later''\<rparr>])]),
      github_token = ''ghp_manual'',
      send_and_read = (\<lambda>token. Response 401 NoData),
      clock = (9, 5)\<rparr>"

section \<open>Basic facts\<close>

lemma char_of_eq: "(char_of (n::nat) = c) = (n mod 256 = of_char c)"
  by (metis of_char_of char_of_char char_of_mod_256)

lemma truthy_Some: "truthy t \<Longrightarrow> \<exists>x. t = Some x \<and> x \<noteq> []"
  by (cases t) (simp_all add: truthy_def)

lemma truthy_simps [simp]:
  "truthy None = False"
  "truthy (Some x) = (x \<noteq> [])"
  by (simp_all add: truthy_def)

lemma emit_fields [simp]:
  "trace (emit ev s) = trace s @ [ev]"
  "destroyed (emit ev s) = destroyed s"
  "menuState (emit ev s) = menuState s"
  "planLabel (emit ev s) = planLabel s"
  "premiumResult (emit ev s) = premiumResult s"
  "chatResult (emit ev s) = chatResult s"
  "chatSep_visible (emit ev s) = chatSep_visible s"
  "setupHeading (emit ev s) = setupHeading s"
  "setupBody (emit ev s) = setupBody s"
  "updatedLabel (emit ev s) = updatedLabel s"
  "warningDot (emit ev s) = warningDot s"
  "headerItem_visible (emit ev s) = headerItem_visible s"
  "footerItem_visible (emit ev s) = footerItem_visible s"
  "setupItem_visible (emit ev s) = setupItem_visible s"
  "setupSep_visible (emit ev s) = setupSep_visible s"
  "openSettingsItem_visible (emit ev s) = openSettingsItem_visible s"
  "settingsItem_visible (emit ev s) = settingsItem_visible s"
  by (simp_all add: emit_def)

lemma setMenuState_fields [simp]:
  "trace (setMenuState st s) = trace s"
  "destroyed (setMenuState st s) = destroyed s"
  "menuState (setMenuState st s) = Some st"
  "planLabel (setMenuState st s) = planLabel s"
  "setupHeading (setMenuState st s) = setupHeading s"
  "setupBody (setMenuState st s) = setupBody s"
  "updatedLabel (setMenuState st s) = updatedLabel s"
  "warningDot (setMenuState st s) = warningDot s"
  by (simp_all add: setMenuState_def Let_def)

lemma setMenuState_rows [simp]:
  "bar (premiumResult (setMenuState st s)) = bar (premiumResult s)"
  "usedLabel (premiumResult (setMenuState st s)) = usedLabel (premiumResult s)"
  "percentLabel (premiumResult (setMenuState st s)) = percentLabel (premiumResult s)"
  "bar (chatResult (setMenuState st s)) = bar (chatResult s)"
  "usedLabel (chatResult (setMenuState st s)) = usedLabel (chatResult s)"
  "percentLabel (chatResult (setMenuState st s)) = percentLabel (chatResult s)"
  by (simp_all add: setMenuState_def Let_def)

lemma setMenuState_same: "menuState s = Some st \<Longrightarrow> setMenuState st s = s"
  by (simp add: setMenuState_def)

lemma setMenuState_consistent: "menu_consistent s \<Longrightarrow> menu_consistent (setMenuState st s)"
  by (auto simp add: menu_consistent_def setMenuState_def Let_def split: option.splits)

lemma showSetupState_fields [simp]:
  "trace (showSetupState h b s) = trace s @ [ShowSetupState h b]"
  "destroyed (showSetupState h b s) = destroyed s"
  "menuState (showSetupState h b s) = Some ''setup''"
  "setupHeading (showSetupState h b s) = h"
  "setupBody (showSetupState h b s) = b"
  "planLabel (showSetupState h b s) = planLabel s"
  "updatedLabel (showSetupState h b s) = updatedLabel s"
  by (simp_all add: showSetupState_def Let_def)

lemma showSetupState_rows [simp]:
  "bar (premiumResult (showSetupState h b s)) = bar (premiumResult s)"
  "usedLabel (premiumResult (showSetupState h b s)) = usedLabel (premiumResult s)"
  "percentLabel (premiumResult (showSetupState h b s)) = percentLabel (premiumResult s)"
  "bar (chatResult (showSetupState h b s)) = bar (chatResult s)"
  "usedLabel (chatResult (showSetupState h b s)) = usedLabel (chatResult s)"
  "percentLabel (chatResult (showSetupState h b s)) = percentLabel (chatResult s)"
  by (simp_all add: showSetupState_def Let_def)

lemma emit_consistent [simp]: "menu_consistent (emit ev s) = menu_consistent s"
  by (simp add: menu_consistent_def Let_def split: option.splits)

lemma showSetupState_consistent:
  "menu_consistent s \<Longrightarrow> menu_consistent (showSetupState h b s)"
proof -
  assume "menu_consistent s"
  then have "menu_consistent (setMenuState ''setup'' (emit (ShowSetupState h b) s))"
    by (simp add: setMenuState_consistent)
  then show ?thesis
    by (simp add: showSetupState_def Let_def menu_consistent_def split: option.splits)
qed

lemma showNetworkError_fields [simp]:
  "trace (showNetworkError d s) = trace s @ [ShowNetworkError d]"
  "destroyed (showNetworkError d s) = destroyed s"
  "menuState (showNetworkError d s) = menuState s"
  "setupHeading (showNetworkError d s) = setupHeading s"
  "setupBody (showNetworkError d s) = setupBody s"
  "planLabel (showNetworkError d s) = planLabel s"
  "premiumResult (showNetworkError d s) = premiumResult s"
  "chatResult (showNetworkError d s) = chatResult s"
  "chatSep_visible (showNetworkError d s) = chatSep_visible s"
  "headerItem_visible (showNetworkError d s) = headerItem_visible s"
  "footerItem_visible (showNetworkError d s) = footerItem_visible s"
  "setupItem_visible (showNetworkError d s) = setupItem_visible s"
  "updatedLabel (showNetworkError d s) = ''Error: '' @ d"
  by (simp_all add: showNetworkError_def Let_def)

lemma destroy_fields [simp]:
  "trace (destroy s) = trace s @ [Destroy]"
  "destroyed (destroy s) = True"
  by (simp_all add: destroy_def)

lemma suspended_None [simp]: "suspended p None s = s"
  by (simp add: suspended_def)

lemma suspended_trace:
  "trace (suspended p td s) = trace s @ (if td = Some p then [Destroy] else [])"
  by (simp add: suspended_def)

lemma suspended_destroyed:
  "destroyed (suspended p td s) = (destroyed s \<or> td = Some p)"
  by (simp add: suspended_def)

lemma io_events_simps [simp]:
  "io_events [] = []"
  "io_events (xs @ ys) = io_events xs @ io_events ys"
  "io_events (ev # xs) = (if is_ui_event ev then io_events xs else ev # io_events xs)"
  by (simp_all add: io_events_def)

lemma updateUsageDisplay_trace:
  "trace (updateUsageDisplay now d s) =
     trace s @ UpdateUsageDisplay #
       (if \<not> truthy (payload_plan d) \<and> payload_premium d = None \<and> payload_chat d = None
        then [ShowSetupState ''Copilot Data Unavailable''
                ''API returned no usage data. Your token may lack Copilot permissions.'']
        else [])"
  by (simp add: updateUsageDisplay_def Let_def updateChatVisibility_def)

lemma updateUsageDisplay_destroyed [simp]:
  "destroyed (updateUsageDisplay now d s) = destroyed s"
  by (simp add: updateUsageDisplay_def Let_def updateChatVisibility_def)

lemma fetchUsage_io_events:
  "io_events (trace (fetchUsage e td t s)) =
     io_events (trace s) @ SendAndRead (request_headers t) #
       (if td = Some AwaitResponse then [Destroy] else [])"
  by (simp add: fetchUsage_def Let_def suspended_trace updateUsageDisplay_trace
        split: http_outcome.splits body_outcome.splits)

section \<open>Token resolution: the first token wins\<close>

lemma no_probe_teardown:
  assumes "td = None \<or> td = Some AwaitResponse"
  shows "suspended AwaitGhAuthToken td s = s"
    and "suspended AwaitGhHostsYml td s = s"
    and "suspended AwaitHostsJson td s = s"
    and "suspended AwaitAppsJson td s = s"
    and "suspended AwaitOauthJson td s = s"
  using assms by (auto simp: suspended_def)

lemma resolveToken_found_0:
  assumes "\<not> destroyed s" "td = None \<or> td = Some AwaitResponse" "runSubprocessToken (gh_auth_token e) = Some t" "t \<noteq> []"
  shows "resolveToken e td s =
           fetchUsage e td t (s\<lparr>trace := trace s @ take 1 (probe_events e)\<rparr>)"
  using assms by (simp add: resolveToken_def Let_def probe_events_def emit_def no_probe_teardown)

lemma resolveToken_found_1:
  assumes "\<not> destroyed s" "td = None \<or> td = Some AwaitResponse" "\<not> truthy (runSubprocessToken (gh_auth_token e))"
    "readFileToken (gh_hosts_yml e) readToken_ghYml = Some t" "t \<noteq> []"
  shows "resolveToken e td s =
           fetchUsage e td t (s\<lparr>trace := trace s @ take 2 (probe_events e)\<rparr>)"
  using assms by (simp add: resolveToken_def Let_def probe_events_def emit_def no_probe_teardown)

lemma resolveToken_found_2:
  assumes "\<not> destroyed s" "td = None \<or> td = Some AwaitResponse" "\<not> truthy (runSubprocessToken (gh_auth_token e))"
    "\<not> truthy (readFileToken (gh_hosts_yml e) readToken_ghYml)"
    "readFileToken (copilot_hosts_json e) readToken_hostsJson = Some t" "t \<noteq> []"
  shows "resolveToken e td s =
           fetchUsage e td t (s\<lparr>trace := trace s @ take 3 (probe_events e)\<rparr>)"
  using assms by (simp add: resolveToken_def Let_def probe_events_def emit_def no_probe_teardown)

lemma resolveToken_found_3:
  assumes "\<not> destroyed s" "td = None \<or> td = Some AwaitResponse" "\<not> truthy (runSubprocessToken (gh_auth_token e))"
    "\<not> truthy (readFileToken (gh_hosts_yml e) readToken_ghYml)"
    "\<not> truthy (readFileToken (copilot_hosts_json e) readToken_hostsJson)"
    "readFileToken (copilot_apps_json e) readToken_appsJson = Some t" "t \<noteq> []"
  shows "resolveToken e td s =
           fetchUsage e td t (s\<lparr>trace := trace s @ take 4 (probe_events e)\<rparr>)"
  using assms by (simp add: resolveToken_def Let_def probe_events_def emit_def no_probe_teardown)

lemma resolveToken_found_4:
  assumes "\<not> destroyed s" "td = None \<or> td = Some AwaitResponse" "\<not> truthy (runSubprocessToken (gh_auth_token e))"
    "\<not> truthy (readFileToken (gh_hosts_yml e) readToken_ghYml)"
    "\<not> truthy (readFileToken (copilot_hosts_json e) readToken_hostsJson)"
    "\<not> truthy (readFileToken (copilot_apps_json e) readToken_appsJson)"
    "readFileToken (copilot_oauth_json e) readToken_oauthJson = Some t" "t \<noteq> []"
  shows "resolveToken e td s =
           fetchUsage e td t (s\<lparr>trace := trace s @ take 5 (probe_events e)\<rparr>)"
  using assms by (simp add: resolveToken_def Let_def probe_events_def emit_def no_probe_teardown)

lemma resolveToken_found_5:
  assumes "\<not> destroyed s" "td = None \<or> td = Some AwaitResponse" "\<not> truthy (runSubprocessToken (gh_auth_token e))"
    "\<not> truthy (readFileToken (gh_hosts_yml e) readToken_ghYml)"
    "\<not> truthy (readFileToken (copilot_hosts_json e) readToken_hostsJson)"
    "\<not> truthy (readFileToken (copilot_apps_json e) readToken_appsJson)"
    "\<not> truthy (readFileToken (copilot_oauth_json e) readToken_oauthJson)"
    "trim (github_token e) = t" "t \<noteq> []"
  shows "resolveToken e td s =
           fetchUsage e td t (s\<lparr>trace := trace s @ take 6 (probe_events e)\<rparr>)"
  using assms by (simp add: resolveToken_def Let_def probe_events_def emit_def no_probe_teardown)

lemma resolveToken_none_found:
  assumes "\<not> destroyed s" "\<not> truthy (runSubprocessToken (gh_auth_token e))"
    "\<not> truthy (readFileToken (gh_hosts_yml e) readToken_ghYml)"
    "\<not> truthy (readFileToken (copilot_hosts_json e) readToken_hostsJson)"
    "\<not> truthy (readFileToken (copilot_apps_json e) readToken_appsJson)"
    "\<not> truthy (readFileToken (copilot_oauth_json e) readToken_oauthJson)"
    "trim (github_token e) = []"
  shows "resolveToken e None s =
           showSetupState ''GitHub Token Required''
             ''No credentials found. Open Settings to add your token.''
             (s\<lparr>trace := trace s @ probe_events e\<rparr>)"
  using assms by (simp add: resolveToken_def Let_def probe_events_def emit_def)

lemma first_found:
  assumes live: "\<not> destroyed s"
    and td: "td = None \<or> td = Some AwaitResponse"
    and k: "k < length (probe_results e)"
    and found: "probe_results e ! k = Some t" "t \<noteq> []"
    and earlier: "\<forall>j<k. \<not> truthy (probe_results e ! j)"
  shows "resolveToken e td s =
           fetchUsage e td t (s\<lparr>trace := trace s @ take (Suc k) (probe_events e)\<rparr>)"
proof -
  have "k < 6" using k by (simp add: probe_results_def)
  then consider "k = 0" | "k = 1" | "k = 2" | "k = 3" | "k = 4" | "k = 5"
    by linarith
  then show ?thesis
  proof cases
    case 1
    with live td found show ?thesis
      using resolveToken_found_0 [of s td e t] by (simp add: probe_results_def probe_events_def eval_nat_numeral)
  next
    case 2
    with earlier have "\<not> truthy (probe_results e ! 0)" by simp
    with 2 live td found show ?thesis
      using resolveToken_found_1 [of s td e t] by (simp add: probe_results_def probe_events_def eval_nat_numeral)
  next
    case 3
    with earlier have "\<not> truthy (probe_results e ! 0)" "\<not> truthy (probe_results e ! 1)"
      by simp_all
    with 3 live td found show ?thesis
      using resolveToken_found_2 [of s td e t] by (simp add: probe_results_def probe_events_def eval_nat_numeral)
  next
    case 4
    with earlier have "\<not> truthy (probe_results e ! 0)" "\<not> truthy (probe_results e ! 1)"
      "\<not> truthy (probe_results e ! 2)"
      by simp_all
    with 4 live td found show ?thesis
      using resolveToken_found_3 [of s td e t] by (simp add: probe_results_def probe_events_def eval_nat_numeral)
  next
    case 5
    with earlier have "\<not> truthy (probe_results e ! 0)" "\<not> truthy (probe_results e ! 1)"
      "\<not> truthy (probe_results e ! 2)" "\<not> truthy (probe_results e ! 3)"
      by simp_all
    with 5 live td found show ?thesis
      using resolveToken_found_4 [of s td e t] by (simp add: probe_results_def probe_events_def eval_nat_numeral)
  next
    case 6
    with earlier have "\<not> truthy (probe_results e ! 0)" "\<not> truthy (probe_results e ! 1)"
      "\<not> truthy (probe_results e ! 2)" "\<not> truthy (probe_results e ! 3)"
      "\<not> truthy (probe_results e ! 4)"
      by simp_all
    with 6 live td found show ?thesis
      using resolveToken_found_5 [of s td e t] by (simp add: probe_results_def probe_events_def eval_nat_numeral)
  qed
qed

lemma io_events_probe_events: "io_events (take n (probe_events e)) = take n (probe_events e)"
proof -
  have "\<forall>ev \<in> set (take n (probe_events e)). \<not> is_ui_event ev"
    by (auto dest!: in_set_takeD simp: probe_events_def)
  then show ?thesis
    by (simp add: io_events_def)
qed

text \<open>
  Claim C1. Whatever the six probes yield, the resolver runs them one after the other in
  the fixed order (gh subprocess, gh hosts.yml, hosts.json, apps.json, oauth.json, manual
  setting) and calls the usage fetch with the token of the first probe whose result is a
  non-empty token. The probes run in the cycle are exactly those up to and including that
  one; the only other input or output of the cycle is the one request carrying that token.
\<close>

theorem resolveToken_first_nonempty_probe:
  assumes "\<not> destroyed s"
    and "k < length (probe_results e)"
    and "probe_results e ! k = Some t" and "t \<noteq> []"
    and "\<forall>j<k. \<not> truthy (probe_results e ! j)"
  shows "resolveToken e None s =
           fetchUsage e None t (s\<lparr>trace := trace s @ take (Suc k) (probe_events e)\<rparr>) \<and>
         io_events (trace (resolveToken e None s)) =
           io_events (trace s) @ take (Suc k) (probe_events e) @ [SendAndRead (request_headers t)]"
proof -
  have eq: "resolveToken e None s =
           fetchUsage e None t (s\<lparr>trace := trace s @ take (Suc k) (probe_events e)\<rparr>)"
    using assms by (simp add: first_found)
  have "io_events (trace (resolveToken e None s)) =
          io_events (trace s @ take (Suc k) (probe_events e)) @ [SendAndRead (request_headers t)]"
    unfolding eq by (simp add: fetchUsage_io_events)
  then show ?thesis
    using eq by (simp add: io_events_probe_events del: take_Suc_Cons)
qed

lemma example_env_probes:
  "probe_results example_env =
     [None, None, Some ''gho_hosts'', Some ''gho_apps'', None, Some ''ghp_manual'']"
  by (simp add: probe_results_def example_env_def runSubprocessToken_def readFileToken_def
      readToken_hostsJson_def readToken_appsJson_def trim_def is_space_def)

lemma example_env_events:
  "probe_events example_env =
     [SubprocessNew [''gh'', ''auth'', ''token''],
      LoadContents [''/home/u'', ''.config'', ''gh'', ''hosts.yml''],
      LoadContents [''/home/u'', ''.config'', ''github-copilot'', ''hosts.json''],
      LoadContents [''/home/u'', ''.config'', ''github-copilot'', ''apps.json''],
      LoadContents [''/home/u'', ''.config'', ''github-copilot'', ''oauth.json''],
      GetString ''github-token'']"
  by (simp add: probe_events_def example_env_def)

lemma buildMenu_live: "\<not> destroyed buildMenu" "trace buildMenu = []"
  by (simp_all add: buildMenu_def)

theorem resolveToken_first_nonempty_probe_witness:
  "io_events (trace (resolveToken example_env None buildMenu)) =
     [SubprocessNew [''gh'', ''auth'', ''token''],
      LoadContents [''/home/u'', ''.config'', ''gh'', ''hosts.yml''],
      LoadContents [''/home/u'', ''.config'', ''github-copilot'', ''hosts.json''],
      SendAndRead (request_headers ''gho_hosts'')]"
proof -
  have h1: "\<not> destroyed buildMenu" by (rule buildMenu_live)
  have h2: "2 < length (probe_results example_env)" by (simp add: example_env_probes)
  have h3: "probe_results example_env ! 2 = Some ''gho_hosts''" by (simp add: example_env_probes)
  have h4: "''gho_hosts'' \<noteq> []" by simp
  have h5: "\<forall>j<2. \<not> truthy (probe_results example_env ! j)"
    by (simp add: example_env_probes less_2_cases_iff)
  show ?thesis
    using resolveToken_first_nonempty_probe [OF h1 h2 h3 h4 h5, THEN conjunct2]
    by (simp add: buildMenu_live example_env_events numeral_2_eq_2)
qed

lemma resolveToken_no_fetch:
  assumes "\<not> truthy (runSubprocessToken (gh_auth_token e))"
    "\<not> truthy (readFileToken (gh_hosts_yml e) readToken_ghYml)"
    "\<not> truthy (readFileToken (copilot_hosts_json e) readToken_hostsJson)"
    "\<not> truthy (readFileToken (copilot_apps_json e) readToken_appsJson)"
    "\<not> truthy (readFileToken (copilot_oauth_json e) readToken_oauthJson)"
    "trim (github_token e) = []"
  shows "filter is_fetch_event (trace (resolveToken e td s)) = filter is_fetch_event (trace s)"
  using assms
  by (simp add: resolveToken_def Let_def suspended_trace suspended_destroyed)

lemma empty_env_probes:
  "probe_results empty_env = [None, None, None, None, None, Some []]"
  by (simp add: probe_results_def empty_env_def runSubprocessToken_def readFileToken_def
      readToken_hostsJson_def readToken_appsJson_def readToken_ghYml_def trim_def is_space_def)

section \<open>Teardown during a refresh\<close>

lemma ui_after_destroy_none: "Destroy \<notin> set evs \<Longrightarrow> ui_after_destroy evs = []"
  by (induction evs) auto

lemma ui_after_destroy_append:
  "ui_after_destroy (xs @ ys) =
     (if Destroy \<in> set xs then ui_after_destroy xs @ filter is_ui_event ys
      else ui_after_destroy ys)"
  by (induction xs) auto

lemma fetchUsage_trace_prefix:
  "\<exists>ui. trace (fetchUsage e td t s) =
          trace s @ SendAndRead (request_headers t) #
            (if td = Some AwaitResponse then [Destroy] else []) @ ui \<and>
        (\<forall>ev \<in> set ui. is_ui_event ev)"
  by (simp add: fetchUsage_def Let_def suspended_trace updateUsageDisplay_trace
        split: http_outcome.splits body_outcome.splits)

lemma fetchUsage_no_destroy:
  assumes "Destroy \<notin> set (trace s)" "td \<noteq> Some AwaitResponse"
  shows "Destroy \<notin> set (trace (fetchUsage e td t s))"
proof -
  obtain ui where "trace (fetchUsage e td t s) =
          trace s @ SendAndRead (request_headers t) #
            (if td = Some AwaitResponse then [Destroy] else []) @ ui"
    and "\<forall>ev \<in> set ui. is_ui_event ev"
    using fetchUsage_trace_prefix by blast
  with assms show ?thesis by auto
qed

lemma fetchUsage_quiet:
  assumes "Destroy \<notin> set (trace s)" "td \<noteq> Some AwaitResponse"
  shows "ui_after_destroy (trace (fetchUsage e td t s)) = []"
  using assms by (simp add: fetchUsage_no_destroy ui_after_destroy_none)

lemma teardown_during_probe_silent:
  assumes "\<not> destroyed s" "Destroy \<notin> set (trace s)" "p \<noteq> AwaitResponse"
  shows "ui_after_destroy (trace (resolveToken e (Some p) s)) = []"
  using assms
  by (cases p)
     (simp_all add: resolveToken_def Let_def suspended_def fetchUsage_quiet
        ui_after_destroy_none ui_after_destroy_append)

lemma suspended_fields [simp]:
  "menuState (suspended p td s) = menuState s"
  "planLabel (suspended p td s) = planLabel s"
  "premiumResult (suspended p td s) = premiumResult s"
  "chatResult (suspended p td s) = chatResult s"
  "chatSep_visible (suspended p td s) = chatSep_visible s"
  "setupHeading (suspended p td s) = setupHeading s"
  "setupBody (suspended p td s) = setupBody s"
  "updatedLabel (suspended p td s) = updatedLabel s"
  "warningDot (suspended p td s) = warningDot s"
  "headerItem_visible (suspended p td s) = headerItem_visible s"
  "footerItem_visible (suspended p td s) = footerItem_visible s"
  "setupItem_visible (suspended p td s) = setupItem_visible s"
  by (simp_all add: suspended_def destroy_def emit_def)

lemma suspended_consistent [simp]: "menu_consistent (suspended p td s) = menu_consistent s"
  by (simp add: menu_consistent_def Let_def suspended_def destroy_def emit_def split: option.splits)

lemma cancelled_env_probes:
  "runSubprocessToken (gh_auth_token cancelled_env) = Some ''gho_cli''"
  by (simp add: cancelled_env_def runSubprocessToken_def trim_def is_space_def)

text \<open>
  Claim C3. A teardown while a probe or the request is in flight must leave the display
  untouched afterwards. The five probes honour this (lemma
  \<open>teardown_during_probe_silent\<close>); the request's callback does not look at the
  flag. Here the indicator is torn down while the request is in flight and the aborted
  request fails: the callback goes on to \<open>showNetworkError\<close> and rewrites the footer
  label of the torn-down indicator.
\<close>

theorem teardown_during_fetch_reaches_display:
  "trace (resolveToken cancelled_env (Some AwaitResponse) buildMenu) =
     [SubprocessNew [''gh'', ''auth'', ''token''],
      SendAndRead (request_headers ''gho_cli''),
      Destroy,
      ShowNetworkError ''Operation was cancelled''] \<and>
   ui_after_destroy (trace (resolveToken cancelled_env (Some AwaitResponse) buildMenu)) =
     [ShowNetworkError ''Operation was cancelled''] \<and>
   updatedLabel buildMenu = ''Not yet refreshed'' \<and>
   updatedLabel (resolveToken cancelled_env (Some AwaitResponse) buildMenu) =
     ''Error: Operation was cancelled''"
proof -
  have "resolveToken cancelled_env (Some AwaitResponse) buildMenu =
          fetchUsage cancelled_env (Some AwaitResponse) ''gho_cli''
            (buildMenu\<lparr>trace := trace buildMenu @ take 1 (probe_events cancelled_env)\<rparr>)"
    by (rule resolveToken_found_0) (simp_all add: buildMenu_live cancelled_env_probes)
  moreover have "send_and_read cancelled_env ''gho_cli'' = FinishThrows ''Operation was cancelled''"
    by (simp add: cancelled_env_def)
  moreover have "updatedLabel buildMenu = ''Not yet refreshed''"
    by (simp add: buildMenu_def)
  ultimately show ?thesis
    by (simp add: fetchUsage_def Let_def suspended_def buildMenu_live probe_events_def)
qed

lemma teardown_during_fetch_not_silent:
  assumes "\<not> destroyed s" "Destroy \<notin> set (trace s)"
    and "k < length (probe_results e)"
    and "probe_results e ! k = Some t" "t \<noteq> []"
    and "\<forall>j<k. \<not> truthy (probe_results e ! j)"
    and "send_and_read e t \<noteq> NoSourceSession"
  shows "ui_after_destroy (trace (resolveToken e (Some AwaitResponse) s)) \<noteq> []"
proof -
  have eq: "resolveToken e (Some AwaitResponse) s =
           fetchUsage e (Some AwaitResponse) t
             (s\<lparr>trace := trace s @ take (Suc k) (probe_events e)\<rparr>)"
    using assms by (simp add: first_found)
  have "Destroy \<notin> set (take (Suc k) (probe_events e))"
    by (auto dest!: in_set_takeD simp: probe_events_def)
  with assms(2,7) show ?thesis
    unfolding eq
    by (simp add: fetchUsage_def Let_def suspended_def ui_after_destroy_append
          updateUsageDisplay_trace del: take_Suc_Cons
          split: http_outcome.splits body_outcome.splits)
qed

section \<open>The display after a first refresh\<close>

lemma usage_shown_fields:
  "menuState usage_shown = Some ''usage''"
  "planLabel usage_shown = ''Pro''"
  "usedLabel (premiumResult usage_shown) = ''20%''"
  "percentLabel (premiumResult usage_shown) = ''80% remaining''"
  "width (bar (premiumResult usage_shown)) = 49"
  "usedLabel (chatResult usage_shown) = ''unlimited''"
  "updatedLabel usage_shown = ''Updated 09:05''"
  by (simp_all add: usage_shown_def pro_payload_def updateUsageDisplay_def Let_def
      payload_plan_def payload_premium_def payload_chat_def payload_snapshots_def
      pctRemaining_def updateChatVisibility_def update_row_def updateBar_def
      add_style_class_name_def remove_style_class_name_def clampedPct_def TRACK_PX_def
      Math_round_def show_int_def toFixed0_def show_nat.simps digit_char_def char_of_eq
      formatPlan_def is_word_char_def toUpperCase_word_char_def padStart2_def)

section \<open>Reading the payload: the selectors\<close>

lemma updateUsageDisplay_depends:
  assumes "payload_plan d = payload_plan d'"
    and "(payload_premium d = None) = (payload_premium d' = None)"
    and "(payload_chat d = None) = (payload_chat d' = None)"
    and "pctRemaining (payload_premium d) = pctRemaining (payload_premium d')"
    and "pctRemaining (payload_chat d) = pctRemaining (payload_chat d')"
  shows "updateUsageDisplay now d s = updateUsageDisplay now d' s"
  using assms by (simp add: updateUsageDisplay_def Let_def)

lemma both_payload_selected:
  "payload_plan both_payload = Some ''pro''"
  "payload_premium both_payload = Some \<lparr>percent_remaining = Some 80, percentRemaining = Some 10\<rparr>"
  "payload_chat both_payload = None"
  "pctRemaining (payload_premium both_payload) = Some 80"
  by (simp_all add: both_payload_def payload_plan_def payload_snapshots_def payload_premium_def
        payload_chat_def pctRemaining_def)

lemma pro_payload_selected:
  "payload_plan pro_payload = Some ''pro''"
  "payload_premium pro_payload = Some \<lparr>percent_remaining = Some 80, percentRemaining = None\<rparr>"
  "payload_chat pro_payload = None"
  "pctRemaining (payload_premium pro_payload) = Some 80"
  by (simp_all add: pro_payload_def payload_plan_def payload_snapshots_def payload_premium_def
        payload_chat_def pctRemaining_def)

lemma camel_payload_selected:
  "payload_plan camel_payload = Some ''pro''"
  "payload_premium camel_payload = Some \<lparr>percent_remaining = None, percentRemaining = Some 80\<rparr>"
  "payload_chat camel_payload = None"
  "pctRemaining (payload_premium camel_payload) = Some 80"
  by (simp_all add: camel_payload_def payload_plan_def payload_snapshots_def payload_premium_def
        payload_chat_def pctRemaining_def)

section \<open>Chat row visibility\<close>

lemma update_row_item_visible [simp]:
  "item_visible (update_row r row) = item_visible row"
  by (simp add: update_row_def Let_def split: option.splits)

lemma updateUsageDisplay_chat_visible:
  assumes "truthy (payload_plan d) \<or> payload_premium d \<noteq> None \<or> payload_chat d \<noteq> None"
  shows "item_visible (chatResult (updateUsageDisplay now d s)) = isLimited (payload_plan d)"
    and "chatSep_visible (updateUsageDisplay now d s) = isLimited (payload_plan d)"
  using assms by (auto simp add: updateUsageDisplay_def Let_def updateChatVisibility_def)

lemma isLimited_examples:
  "isLimited (Some ''Free'')"
  "isLimited (Some ''free'')"
  "isLimited (Some ''copilot-free'')"
  "isLimited (Some ''copilot_free'')"
  "isLimited (Some ''COPILOT-FREE'')"
  "isLimited (Some ''Copilot_Free'')"
  "\<not> isLimited (Some ''pro'')"
  "\<not> isLimited (Some ''business'')"
  "\<not> isLimited (Some ''enterprise'')"
  "\<not> isLimited None"
  by (simp_all add: isLimited_def toLowerCase_def toLowerCase_char_def CHAT_LIMITED_PLANS_def
        char_of_eq)

text \<open>
  Claim C8. Whether the chat row shows is decided by the plan identifier alone: it shows
  for "Free", "free", "copilot-free" and "copilot_free", and not for "pro", "business"
  or "enterprise". Identifiers that differ in letter case only are treated alike, and the
  free-tier identifier is accepted with an underscore or a hyphen.
\<close>

theorem chat_visibility_by_plan:
  "(\<forall>p q. toLowerCase p = toLowerCase q \<longrightarrow> isLimited (Some p) = isLimited (Some q)) \<and>
   (truthy (payload_plan d) \<or> payload_premium d \<noteq> None \<or> payload_chat d \<noteq> None \<longrightarrow>
      item_visible (chatResult (updateUsageDisplay now d s)) = isLimited (payload_plan d) \<and>
      chatSep_visible (updateUsageDisplay now d s) = isLimited (payload_plan d)) \<and>
   item_visible (chatResult (updateChatVisibility plan s)) = isLimited plan \<and>
   chatSep_visible (updateChatVisibility plan s) = isLimited plan \<and>
   isLimited (Some ''Free'') \<and> isLimited (Some ''free'') \<and>
   isLimited (Some ''copilot-free'') \<and> isLimited (Some ''copilot_free'') \<and>
   \<not> isLimited (Some ''pro'') \<and> \<not> isLimited (Some ''business'') \<and>
   \<not> isLimited (Some ''enterprise'')"
proof -
  have A: "\<forall>p q. toLowerCase p = toLowerCase q \<longrightarrow> isLimited (Some p) = isLimited (Some q)"
    by (simp add: isLimited_def)
  have B: "truthy (payload_plan d) \<or> payload_premium d \<noteq> None \<or> payload_chat d \<noteq> None \<longrightarrow>
      item_visible (chatResult (updateUsageDisplay now d s)) = isLimited (payload_plan d) \<and>
      chatSep_visible (updateUsageDisplay now d s) = isLimited (payload_plan d)"
    using updateUsageDisplay_chat_visible [of d now s] by blast
  have C: "item_visible (chatResult (updateChatVisibility plan s)) = isLimited plan"
    "chatSep_visible (updateChatVisibility plan s) = isLimited plan"
    by (simp_all add: updateChatVisibility_def)
  show ?thesis
    by (intro conjI A B C isLimited_examples)
qed

theorem chat_visibility_by_plan_witness:
  "toLowerCase ''COPILOT-FREE'' = toLowerCase ''copilot-free'' \<and>
   isLimited (Some ''COPILOT-FREE'') = isLimited (Some ''copilot-free'') \<and>
   item_visible (chatResult (updateUsageDisplay (9, 5) free_payload buildMenu)) \<and>
   \<not> item_visible (chatResult (updateUsageDisplay (9, 5) pro_payload buildMenu))"
proof -
  have h1: "toLowerCase ''COPILOT-FREE'' = toLowerCase ''copilot-free''"
    by (simp add: toLowerCase_def toLowerCase_char_def char_of_eq)
  have h2: "truthy (payload_plan free_payload) \<or> payload_premium free_payload \<noteq> None \<or>
            payload_chat free_payload \<noteq> None"
    by (simp add: free_payload_def payload_plan_def)
  have h3: "truthy (payload_plan pro_payload) \<or> payload_premium pro_payload \<noteq> None \<or>
            payload_chat pro_payload \<noteq> None"
    by (simp add: pro_payload_selected)
  have p: "payload_plan free_payload = Some ''Copilot_Free''"
    by (simp add: free_payload_def payload_plan_def)
  have 1: "isLimited (Some ''COPILOT-FREE'') = isLimited (Some ''copilot-free'')"
    by (rule chat_visibility_by_plan [THEN conjunct1, rule_format, OF h1])
  have 2: "item_visible (chatResult (updateUsageDisplay (9, 5) free_payload buildMenu)) =
             isLimited (payload_plan free_payload)"
    by (rule chat_visibility_by_plan
          [THEN conjunct2, THEN conjunct1, rule_format, OF h2, THEN conjunct1])
  have 3: "item_visible (chatResult (updateUsageDisplay (9, 5) pro_payload buildMenu)) =
             isLimited (payload_plan pro_payload)"
    by (rule chat_visibility_by_plan
          [THEN conjunct2, THEN conjunct1, rule_format, OF h3, THEN conjunct1])
  from h1 1 2 3 show ?thesis
    by (simp add: p pro_payload_selected isLimited_examples)
qed

section \<open>Used percentage: bar and labels\<close>

lemma updateBar_shown:
  "width (updateBar b pct) = Math_round (clampedPct pct / 100 * 244)"
  "usage_class (clampedPct pct) \<in> style_classes (updateBar b pct)"
  by (simp_all add: updateBar_def Let_def TRACK_PX_def add_style_class_name_def
        remove_style_class_name_def)

lemma clampedPct_range: "0 \<le> clampedPct pct \<and> clampedPct pct \<le> 100"
  by (simp add: clampedPct_def)


lemma update_row_present:
  "width (bar (update_row (Some r) row)) = Math_round (clampedPct (100 - r) / 100 * 244)"
  "usage_class (clampedPct (100 - r)) \<in> style_classes (bar (update_row (Some r) row))"
  "usedLabel (update_row (Some r) row) = show_int (Math_round (100 - r)) @ ''%''"
  "percentLabel (update_row (Some r) row) = toFixed0 r @ ''% remaining''"
  by (simp_all add: update_row_def Let_def updateBar_shown)


lemma updateUsageDisplay_rows:
  assumes "truthy (payload_plan d) \<or> payload_premium d \<noteq> None \<or> payload_chat d \<noteq> None"
  shows "bar (premiumResult (updateUsageDisplay now d s)) =
           bar (update_row (pctRemaining (payload_premium d)) (premiumResult s))"
    and "usedLabel (premiumResult (updateUsageDisplay now d s)) =
           usedLabel (update_row (pctRemaining (payload_premium d)) (premiumResult s))"
    and "percentLabel (premiumResult (updateUsageDisplay now d s)) =
           percentLabel (update_row (pctRemaining (payload_premium d)) (premiumResult s))"
    and "bar (chatResult (updateUsageDisplay now d s)) =
           bar (update_row (pctRemaining (payload_chat d)) (chatResult s))"
    and "usedLabel (chatResult (updateUsageDisplay now d s)) =
           usedLabel (update_row (pctRemaining (payload_chat d)) (chatResult s))"
    and "percentLabel (chatResult (updateUsageDisplay now d s)) =
           percentLabel (update_row (pctRemaining (payload_chat d)) (chatResult s))"
  using assms
  by (auto simp add: updateUsageDisplay_def Let_def updateChatVisibility_def update_row_def
        split: option.splits)






section \<open>Absent fields and consistent menus\<close>



lemma usage_shown_consistent: "menu_consistent usage_shown"
  by (simp add: usage_shown_def updateUsageDisplay_def Let_def pro_payload_selected
        updateChatVisibility_def menu_consistent_def buildMenu_def setMenuState_def
        isLimited_examples)

section \<open>Which probes trim: the extractors\<close>

lemma readToken_hostsJson_verbatim:
  "readToken_hostsJson doc = Some t \<longleftrightarrow>
     (\<exists>data en. doc = Some data \<and> map_of data ''github.com'' = Some (Some en) \<and>
        oauth_token en = Some t)"
  by (auto simp add: readToken_hostsJson_def split: option.splits)

lemma apps_loop_verbatim:
  "apps_loop data = Some t \<Longrightarrow>
     t \<noteq> [] \<and> (\<exists>key en. (key, Some en) \<in> set data \<and> oauth_token en = Some t)"
proof (induction data)
  case Nil
  then show ?case by simp
next
  case (Cons a rest)
  obtain key v where a: "a = (key, v)" by (cases a)
  show ?case
  proof (cases "truthy (case v of None \<Rightarrow> None | Some en \<Rightarrow> oauth_token en)")
    case True
    with Cons.prems a obtain en where "v = Some en" "oauth_token en = Some t" "t \<noteq> []"
      by (cases v) (auto simp add: Let_def)
    with a show ?thesis by auto
  next
    case False
    with Cons.prems a have "apps_loop rest = Some t"
      by (simp add: Let_def)
    then have "t \<noteq> [] \<and> (\<exists>key en. (key, Some en) \<in> set rest \<and> oauth_token en = Some t)"
      by (rule Cons.IH)
    then show ?thesis by auto
  qed
qed

lemma oauth_entries_loop_verbatim:
  "oauth_entries_loop entries = Some t \<Longrightarrow>
     t \<noteq> [] \<and> (\<exists>en. Some en \<in> set entries \<and> accessToken en = Some t)"
proof (induction entries)
  case Nil
  then show ?case by simp
next
  case (Cons entry rest)
  show ?case
  proof (cases "truthy (case entry of None \<Rightarrow> None | Some en \<Rightarrow> accessToken en)")
    case True
    with Cons.prems obtain en where "entry = Some en" "accessToken en = Some t" "t \<noteq> []"
      by (cases entry) (auto simp add: Let_def)
    then show ?thesis by auto
  next
    case False
    with Cons.prems have "oauth_entries_loop rest = Some t"
      by (simp add: Let_def)
    then have "t \<noteq> [] \<and> (\<exists>en. Some en \<in> set rest \<and> accessToken en = Some t)"
      by (rule Cons.IH)
    then show ?thesis by auto
  qed
qed

lemma oauth_loop_verbatim:
  "oauth_loop data = Some t \<Longrightarrow>
     t \<noteq> [] \<and> (\<exists>key entries en. (key, Some entries) \<in> set data \<and> Some en \<in> set entries \<and>
                  accessToken en = Some t)"
proof (induction data)
  case Nil
  then show ?case by simp
next
  case (Cons a rest)
  obtain key v where a: "a = (key, v)" by (cases a)
  have later: ?case if "oauth_loop rest = Some t"
  proof -
    from that have "t \<noteq> [] \<and> (\<exists>key entries en. (key, Some entries) \<in> set rest \<and>
        Some en \<in> set entries \<and> accessToken en = Some t)"
      by (rule Cons.IH)
    then show ?thesis by auto
  qed
  show ?case
  proof (cases v)
    case None
    with Cons.prems a have "oauth_loop rest = Some t" by simp
    then show ?thesis by (rule later)
  next
    case (Some entries)
    show ?thesis
    proof (cases "oauth_entries_loop entries")
      case None
      with Some Cons.prems a have "oauth_loop rest = Some t" by simp
      then show ?thesis by (rule later)
    next
      case found: (Some t')
      with Some Cons.prems a have "t' = t" by simp
      with found have "t \<noteq> [] \<and> (\<exists>en. Some en \<in> set entries \<and> accessToken en = Some t)"
        by (simp add: oauth_entries_loop_verbatim)
      with a Some show ?thesis by auto
    qed
  qed
qed

lemma last_dropWhile: "dropWhile P xs \<noteq> [] \<Longrightarrow> last (dropWhile P xs) = last xs"
  by (induction xs) (auto split: if_splits)

lemma trim_ends:
  assumes "trim out \<noteq> []"
  shows "\<not> is_space (hd (trim out)) \<and> \<not> is_space (last (trim out))"
proof -
  define a where "a = dropWhile is_space out"
  define b where "b = dropWhile is_space (rev a)"
  have trim: "trim out = rev b" by (simp add: trim_def a_def b_def)
  with assms have b: "b \<noteq> []" by simp
  have a: "a \<noteq> []"
  proof
    assume "a = []"
    then have "b = []" by (simp add: b_def)
    with b show False by simp
  qed
  have "\<not> is_space (hd b)" using b unfolding b_def by (rule hd_dropWhile)
  moreover have "\<not> is_space (hd a)" using a unfolding a_def by (rule hd_dropWhile)
  moreover have "last b = hd a"
  proof -
    have "last b = last (rev a)"
      using b unfolding b_def by (rule last_dropWhile)
    also have "\<dots> = hd a"
      using a by (simp add: last_rev)
    finally show ?thesis .
  qed
  ultimately show ?thesis
    using b by (simp add: trim hd_rev last_rev)
qed

lemma ghYml_match_Cons:
  "ghYml_match (c # cs) =
     (if take 12 (c # cs) = ''oauth_token:'' \<and> dropWhile is_space (drop 12 (c # cs)) \<noteq> []
      then Some (takeWhile (\<lambda>x. \<not> is_space x) (dropWhile is_space (drop 12 (c # cs))))
      else ghYml_match cs)"
  by (cases "take 12 (c # cs) = ''oauth_token:''";
      cases "dropWhile is_space (drop 12 (c # cs)) = []")
     (simp_all only: ghYml_match.simps Let_def if_True if_False simp_thms)

lemma ghYml_match_no_space:
  "ghYml_match content = Some t \<Longrightarrow> t \<noteq> [] \<and> (\<forall>c \<in> set t. \<not> is_space c)"
proof (induction content)
  case Nil
  then show ?case by simp
next
  case (Cons c cs)
  define rest where "rest = dropWhile is_space (drop 12 (c # cs))"
  have unfold: "ghYml_match (c # cs) =
     (if take 12 (c # cs) = ''oauth_token:'' \<and> rest \<noteq> []
      then Some (takeWhile (\<lambda>x. \<not> is_space x) rest) else ghYml_match cs)"
    unfolding rest_def by (rule ghYml_match_Cons)
  show ?case
  proof (cases "take 12 (c # cs) = ''oauth_token:'' \<and> rest \<noteq> []")
    case True
    then have "ghYml_match (c # cs) = Some (takeWhile (\<lambda>x. \<not> is_space x) rest)"
      unfolding unfold by (rule if_P)
    with Cons.prems have t: "t = takeWhile (\<lambda>x. \<not> is_space x) rest"
      by simp
    from True have "rest \<noteq> []" by (rule conjunct2)
    then have "\<not> is_space (hd rest)"
      unfolding rest_def by (rule hd_dropWhile)
    with \<open>rest \<noteq> []\<close> have "takeWhile (\<lambda>x. \<not> is_space x) rest \<noteq> []"
      by (cases rest) auto
    with t show ?thesis
      by (auto dest: set_takeWhileD)
  next
    case False
    then have "ghYml_match (c # cs) = ghYml_match cs"
      unfolding unfold by (rule if_not_P)
    with Cons.prems have "ghYml_match cs = Some t"
      by simp
    then show ?thesis by (rule Cons.IH)
  qed
qed

lemma fetchUsage_sends:
  "SendAndRead (request_headers t) \<in> set (trace (fetchUsage e td t s))"
proof -
  obtain ui where "trace (fetchUsage e td t s) =
          trace s @ SendAndRead (request_headers t) #
            (if td = Some AwaitResponse then [Destroy] else []) @ ui"
    using fetchUsage_trace_prefix by blast
  then show ?thesis by simp
qed

lemma blank_env_probes:
  "probe_results blank_env = [None, None, Some ''  '', None, None, Some []]"
  by (simp add: probe_results_def blank_env_def runSubprocessToken_def readFileToken_def
      readToken_hostsJson_def trim_def is_space_def)

lemma less_5_cases: "j < (5::nat) \<Longrightarrow> j = 0 \<or> j = 1 \<or> j = 2 \<or> j = 3 \<or> j = 4"
  by arith

section \<open>The setup display\<close>

lemma showSetupState_warningDot:
  "visible (warningDot (showSetupState h b s))"
  "''dot-high'' \<in> style_classes (warningDot (showSetupState h b s))"
  "''dot-critical'' \<notin> style_classes (warningDot (showSetupState h b s))"
  by (simp_all add: showSetupState_def Let_def add_style_class_name_def remove_style_class_name_def)

lemma showSetupState_shown:
  assumes "menu_consistent s"
  shows "setupItem_visible (showSetupState h b s) \<and>
         setupSep_visible (showSetupState h b s) \<and>
         openSettingsItem_visible (showSetupState h b s) \<and>
         \<not> headerItem_visible (showSetupState h b s) \<and>
         \<not> item_visible (premiumResult (showSetupState h b s)) \<and>
         \<not> item_visible (chatResult (showSetupState h b s)) \<and>
         \<not> chatSep_visible (showSetupState h b s) \<and>
         \<not> footerItem_visible (showSetupState h b s)"
proof -
  have "menu_consistent (showSetupState h b s)"
    using assms by (rule showSetupState_consistent)
  then show ?thesis
    by (simp add: menu_consistent_def Let_def)
qed

lemma showNetworkError_consistent [simp]:
  "menu_consistent (showNetworkError d s) = menu_consistent s"
  by (simp add: menu_consistent_def Let_def showNetworkError_def emit_def split: option.splits)

lemma updateUsageDisplay_consistent:
  assumes "menu_consistent s"
  shows "menu_consistent (updateUsageDisplay now d s)"
proof (cases "\<not> truthy (payload_plan d) \<and> payload_premium d = None \<and> payload_chat d = None")
  case True
  then have "updateUsageDisplay now d s =
      showSetupState ''Copilot Data Unavailable''
        ''API returned no usage data. Your token may lack Copilot permissions.''
        (emit UpdateUsageDisplay s)"
    by (simp add: updateUsageDisplay_def Let_def)
  with assms show ?thesis
    by (simp add: showSetupState_consistent)
next
  case False
  with assms show ?thesis
    by (auto simp add: updateUsageDisplay_def Let_def updateChatVisibility_def
          menu_consistent_def setMenuState_def emit_def split: option.splits)
qed

lemma fetchUsage_consistent:
  assumes "menu_consistent s"
  shows "menu_consistent (fetchUsage e td t s)"
  using assms
  by (simp add: fetchUsage_def Let_def showSetupState_consistent updateUsageDisplay_consistent
        split: http_outcome.splits body_outcome.splits)

lemma resolveToken_consistent:
  assumes "menu_consistent s"
  shows "menu_consistent (resolveToken e td s)"
  using assms
  by (simp add: resolveToken_def Let_def fetchUsage_consistent showSetupState_consistent)

text \<open>
  Claim C2. If no probe yields a token (the manual token being empty once trimmed), the
  resolver ends in the setup display: the menu state is "setup", the heading and body
  carry the fixed "no credentials" texts, the setup item, its separator and the
  "Open Settings" item are shown, the header, both usage rows, the chat separator and the
  footer are hidden, and the warning dot is raised. The cycle sends no request, whether or
  not the indicator is torn down meanwhile.
\<close>

theorem resolveToken_no_credentials:
  assumes "\<forall>r \<in> set (probe_results e). \<not> truthy r"
  shows "(\<not> destroyed s \<longrightarrow>
            menuState (resolveToken e None s) = Some ''setup'' \<and>
            setupHeading (resolveToken e None s) = ''GitHub Token Required'' \<and>
            setupBody (resolveToken e None s) =
              ''No credentials found. Open Settings to add your token.'' \<and>
            visible (warningDot (resolveToken e None s)) \<and>
            ''dot-high'' \<in> style_classes (warningDot (resolveToken e None s)) \<and>
            trace (resolveToken e None s) =
              trace s @ probe_events e @
                [ShowSetupState ''GitHub Token Required''
                   ''No credentials found. Open Settings to add your token.''] \<and>
            (menu_consistent s \<longrightarrow>
               setupItem_visible (resolveToken e None s) \<and>
               setupSep_visible (resolveToken e None s) \<and>
               openSettingsItem_visible (resolveToken e None s) \<and>
               \<not> headerItem_visible (resolveToken e None s) \<and>
               \<not> item_visible (premiumResult (resolveToken e None s)) \<and>
               \<not> item_visible (chatResult (resolveToken e None s)) \<and>
               \<not> chatSep_visible (resolveToken e None s) \<and>
               \<not> footerItem_visible (resolveToken e None s))) \<and>
         (\<forall>td. filter is_fetch_event (trace (resolveToken e td s)) =
                 filter is_fetch_event (trace s))"
proof -
  let ?s0 = "s\<lparr>trace := trace s @ probe_events e\<rparr>"
  from assms have none:
    "\<not> truthy (runSubprocessToken (gh_auth_token e))"
    "\<not> truthy (readFileToken (gh_hosts_yml e) readToken_ghYml)"
    "\<not> truthy (readFileToken (copilot_hosts_json e) readToken_hostsJson)"
    "\<not> truthy (readFileToken (copilot_apps_json e) readToken_appsJson)"
    "\<not> truthy (readFileToken (copilot_oauth_json e) readToken_oauthJson)"
    "trim (github_token e) = []"
    by (simp_all add: probe_results_def)
  have eq: "resolveToken e None s =
           showSetupState ''GitHub Token Required''
             ''No credentials found. Open Settings to add your token.'' ?s0"
    if "\<not> destroyed s"
    using that none by (simp add: resolveToken_none_found)
  have shown: "menu_consistent ?s0" if "menu_consistent s"
    using that by (simp add: menu_consistent_def Let_def split: option.splits)
  have nofetch: "\<forall>td. filter is_fetch_event (trace (resolveToken e td s)) =
                 filter is_fetch_event (trace s)"
    using none by (simp add: resolveToken_no_fetch)
  show ?thesis
  proof (intro conjI impI nofetch)
    assume live: "\<not> destroyed s"
    show "menuState (resolveToken e None s) = Some ''setup''"
      and "setupHeading (resolveToken e None s) = ''GitHub Token Required''"
      and "setupBody (resolveToken e None s) =
              ''No credentials found. Open Settings to add your token.''"
      and "trace (resolveToken e None s) =
              trace s @ probe_events e @
                [ShowSetupState ''GitHub Token Required''
                   ''No credentials found. Open Settings to add your token.'']"
      by (simp_all add: eq [OF live])
    show "visible (warningDot (resolveToken e None s))"
      and "''dot-high'' \<in> style_classes (warningDot (resolveToken e None s))"
      by (simp_all add: eq [OF live] showSetupState_warningDot)
    assume "menu_consistent s"
    then have "menu_consistent ?s0" by (rule shown)
    from showSetupState_shown [OF this]
    show "setupItem_visible (resolveToken e None s)"
      and "setupSep_visible (resolveToken e None s)"
      and "openSettingsItem_visible (resolveToken e None s)"
      and "\<not> headerItem_visible (resolveToken e None s)"
      and "\<not> item_visible (premiumResult (resolveToken e None s))"
      and "\<not> item_visible (chatResult (resolveToken e None s))"
      and "\<not> chatSep_visible (resolveToken e None s)"
      and "\<not> footerItem_visible (resolveToken e None s)"
      by (simp_all add: eq [OF live])
  qed
qed

lemma usage_shown_live: "\<not> destroyed usage_shown" "trace usage_shown = [UpdateUsageDisplay]"
  by (simp_all add: usage_shown_def updateUsageDisplay_trace pro_payload_selected buildMenu_live)

lemma usage_shown_items:
  "headerItem_visible usage_shown" "item_visible (premiumResult usage_shown)"
  "footerItem_visible usage_shown" "\<not> setupItem_visible usage_shown"
  using usage_shown_consistent
  by (simp_all add: menu_consistent_def Let_def usage_shown_fields)

theorem resolveToken_no_credentials_witness:
  "headerItem_visible usage_shown \<and> \<not> setupItem_visible usage_shown \<and>
   menuState (resolveToken empty_env None usage_shown) = Some ''setup'' \<and>
   setupBody (resolveToken empty_env None usage_shown) =
     ''No credentials found. Open Settings to add your token.'' \<and>
   setupItem_visible (resolveToken empty_env None usage_shown) \<and>
   openSettingsItem_visible (resolveToken empty_env None usage_shown) \<and>
   \<not> headerItem_visible (resolveToken empty_env None usage_shown) \<and>
   \<not> item_visible (premiumResult (resolveToken empty_env None usage_shown)) \<and>
   \<not> footerItem_visible (resolveToken empty_env None usage_shown) \<and>
   trace (resolveToken empty_env None usage_shown) =
     [UpdateUsageDisplay,
      SubprocessNew [''gh'', ''auth'', ''token''],
      LoadContents [''/home/u'', ''.config'', ''gh'', ''hosts.yml''],
      LoadContents [''/home/u'', ''.config'', ''github-copilot'', ''hosts.json''],
      LoadContents [''/home/u'', ''.config'', ''github-copilot'', ''apps.json''],
      LoadContents [''/home/u'', ''.config'', ''github-copilot'', ''oauth.json''],
      GetString ''github-token'',
      ShowSetupState ''GitHub Token Required''
        ''No credentials found. Open Settings to add your token.''] \<and>
   filter is_fetch_event (trace (resolveToken empty_env (Some AwaitAppsJson) usage_shown)) = []"
proof -
  have h: "\<forall>r \<in> set (probe_results empty_env). \<not> truthy r"
    by (simp add: empty_env_probes)
  show ?thesis
    using resolveToken_no_credentials [OF h, of usage_shown]
    by (simp add: usage_shown_live usage_shown_consistent usage_shown_items probe_events_def
          empty_env_def)
qed

text \<open>
  Claim C7. A response with status 401 or 403 ends in the setup display, whatever its
  body holds: the menu state is "setup", the setup item, its separator and the "Open
  Settings" item are shown, the header, the usage rows and the footer are hidden, and the
  heading and body carry the "token rejected" texts. Both texts differ from those the
  resolver shows when no probe found a token.
\<close>

theorem fetchUsage_auth_rejected:
  assumes "send_and_read e token = Response status body"
    and "status = 401 \<or> status = 403"
  shows "menuState (fetchUsage e td token s) = Some ''setup'' \<and>
         setupHeading (fetchUsage e td token s) = ''Token Invalid or Expired'' \<and>
         setupBody (fetchUsage e td token s) =
           ''The stored token was rejected. Update it in Settings.'' \<and>
         visible (warningDot (fetchUsage e td token s)) \<and>
         ''dot-high'' \<in> style_classes (warningDot (fetchUsage e td token s)) \<and>
         (menu_consistent s \<longrightarrow>
            setupItem_visible (fetchUsage e td token s) \<and>
            setupSep_visible (fetchUsage e td token s) \<and>
            openSettingsItem_visible (fetchUsage e td token s) \<and>
            \<not> headerItem_visible (fetchUsage e td token s) \<and>
            \<not> item_visible (premiumResult (fetchUsage e td token s)) \<and>
            \<not> item_visible (chatResult (fetchUsage e td token s)) \<and>
            \<not> chatSep_visible (fetchUsage e td token s) \<and>
            \<not> footerItem_visible (fetchUsage e td token s)) \<and>
         (\<forall>e0 s0. \<not> destroyed s0 \<and> (\<forall>r \<in> set (probe_results e0). \<not> truthy r) \<longrightarrow>
            setupHeading (fetchUsage e td token s) \<noteq> setupHeading (resolveToken e0 None s0) \<and>
            setupBody (fetchUsage e td token s) \<noteq> setupBody (resolveToken e0 None s0))"
proof -
  let ?s0 = "suspended AwaitResponse td (emit (SendAndRead (request_headers token)) s)"
  have rejected: "fetchUsage e td token s =
      showSetupState ''Token Invalid or Expired''
        ''The stored token was rejected. Update it in Settings.'' ?s0"
    using assms by (auto simp add: fetchUsage_def Let_def)
  have other: "setupHeading (resolveToken e0 None s0) = ''GitHub Token Required'' \<and>
        setupBody (resolveToken e0 None s0) =
          ''No credentials found. Open Settings to add your token.''"
    if "\<not> destroyed s0" "\<forall>r \<in> set (probe_results e0). \<not> truthy r" for e0 s0
  proof -
    from that(2) have "resolveToken e0 None s0 =
           showSetupState ''GitHub Token Required''
             ''No credentials found. Open Settings to add your token.''
             (s0\<lparr>trace := trace s0 @ probe_events e0\<rparr>)"
      using that(1) by (intro resolveToken_none_found) (simp_all add: probe_results_def)
    then show ?thesis by simp
  qed
  have items: "setupItem_visible (fetchUsage e td token s) \<and>
            setupSep_visible (fetchUsage e td token s) \<and>
            openSettingsItem_visible (fetchUsage e td token s) \<and>
            \<not> headerItem_visible (fetchUsage e td token s) \<and>
            \<not> item_visible (premiumResult (fetchUsage e td token s)) \<and>
            \<not> item_visible (chatResult (fetchUsage e td token s)) \<and>
            \<not> chatSep_visible (fetchUsage e td token s) \<and>
            \<not> footerItem_visible (fetchUsage e td token s)"
    if "menu_consistent s"
  proof -
    from that have "menu_consistent ?s0" by simp
    then show ?thesis
      unfolding rejected by (rule showSetupState_shown)
  qed
  have differ: "\<forall>e0 s0. \<not> destroyed s0 \<and> (\<forall>r \<in> set (probe_results e0). \<not> truthy r) \<longrightarrow>
            setupHeading (fetchUsage e td token s) \<noteq> setupHeading (resolveToken e0 None s0) \<and>
            setupBody (fetchUsage e td token s) \<noteq> setupBody (resolveToken e0 None s0)"
  proof (intro allI impI)
    fix e0 :: env and s0 :: indicator
    assume "\<not> destroyed s0 \<and> (\<forall>r \<in> set (probe_results e0). \<not> truthy r)"
    then have "setupHeading (resolveToken e0 None s0) = ''GitHub Token Required'' \<and>
        setupBody (resolveToken e0 None s0) =
          ''No credentials found. Open Settings to add your token.''"
      using other [of s0 e0] by blast
    then show "setupHeading (fetchUsage e td token s) \<noteq> setupHeading (resolveToken e0 None s0) \<and>
            setupBody (fetchUsage e td token s) \<noteq> setupBody (resolveToken e0 None s0)"
      unfolding rejected by simp
  qed
  have a: "menuState (fetchUsage e td token s) = Some ''setup''"
    and b: "setupHeading (fetchUsage e td token s) = ''Token Invalid or Expired''"
    and c: "setupBody (fetchUsage e td token s) =
           ''The stored token was rejected. Update it in Settings.''"
    and d: "visible (warningDot (fetchUsage e td token s))"
    and e: "''dot-high'' \<in> style_classes (warningDot (fetchUsage e td token s))"
    unfolding rejected by (simp_all add: showSetupState_warningDot)
  from items have f: "menu_consistent s \<longrightarrow>
            setupItem_visible (fetchUsage e td token s) \<and>
            setupSep_visible (fetchUsage e td token s) \<and>
            openSettingsItem_visible (fetchUsage e td token s) \<and>
            \<not> headerItem_visible (fetchUsage e td token s) \<and>
            \<not> item_visible (premiumResult (fetchUsage e td token s)) \<and>
            \<not> item_visible (chatResult (fetchUsage e td token s)) \<and>
            \<not> chatSep_visible (fetchUsage e td token s) \<and>
            \<not> footerItem_visible (fetchUsage e td token s)"
    by (rule impI)
  show ?thesis
    by (intro conjI a b c d e f differ)
qed

theorem fetchUsage_auth_rejected_witness:
  "headerItem_visible usage_shown \<and> \<not> setupItem_visible usage_shown \<and>
   setupHeading (fetchUsage example_env None ''gho_hosts'' usage_shown) = ''Token Invalid or Expired'' \<and>
   setupItem_visible (fetchUsage example_env None ''gho_hosts'' usage_shown) \<and>
   \<not> headerItem_visible (fetchUsage example_env None ''gho_hosts'' usage_shown) \<and>
   \<not> item_visible (premiumResult (fetchUsage example_env None ''gho_hosts'' usage_shown)) \<and>
   \<not> footerItem_visible (fetchUsage example_env None ''gho_hosts'' usage_shown) \<and>
   setupHeading (fetchUsage example_env None ''gho_hosts'' usage_shown)
     \<noteq> setupHeading (resolveToken empty_env None buildMenu) \<and>
   setupBody (fetchUsage example_env None ''gho_hosts'' usage_shown)
     \<noteq> setupBody (resolveToken empty_env None buildMenu)"
proof -
  have h1: "send_and_read example_env ''gho_hosts'' = Response 401 NoData"
    by (simp add: example_env_def)
  have h2: "(401::nat) = 401 \<or> (401::nat) = 403" by simp
  have h3: "\<not> destroyed buildMenu \<and> (\<forall>r \<in> set (probe_results empty_env). \<not> truthy r)"
    by (simp add: buildMenu_live empty_env_probes)
  note t = fetchUsage_auth_rejected [OF h1 h2, of None usage_shown]
  note texts = t [THEN conjunct2, THEN conjunct1]
  note items = t [THEN conjunct2, THEN conjunct2, THEN conjunct2, THEN conjunct2,
      THEN conjunct2, THEN conjunct1, rule_format, OF usage_shown_consistent]
  note differ = t [THEN conjunct2, THEN conjunct2, THEN conjunct2, THEN conjunct2,
      THEN conjunct2, THEN conjunct2, rule_format, OF h3]
  from items texts differ usage_shown_items show ?thesis
    by simp
qed

section \<open>Network errors\<close>









section \<open>A 200 response without usage data\<close>





section \<open>Both spellings of the payload\<close>

lemma updateUsageDisplay_planLabel:
  assumes "truthy (payload_plan d) \<or> payload_premium d \<noteq> None \<or> payload_chat d \<noteq> None"
  shows "planLabel (updateUsageDisplay now d s) =
           (case payload_plan d of None \<Rightarrow> [] | Some p \<Rightarrow> if p = [] then [] else formatPlan p)"
  using assms by (auto simp add: updateUsageDisplay_def Let_def updateChatVisibility_def)

lemma plan_shown:
  assumes "copilot_plan d = Some p \<or> copilot_plan d = None \<and> copilotPlan d = Some p"
    and "p \<noteq> []"
  shows "planLabel (updateUsageDisplay now d s) = formatPlan p"
    and "item_visible (chatResult (updateUsageDisplay now d s)) = isLimited (Some p)"
proof -
  from assms(1) have plan: "payload_plan d = Some p"
    by (auto simp add: payload_plan_def)
  with assms(2) have usage:
    "truthy (payload_plan d) \<or> payload_premium d \<noteq> None \<or> payload_chat d \<noteq> None"
    by simp
  from plan assms(2) show "planLabel (updateUsageDisplay now d s) = formatPlan p"
    by (simp add: updateUsageDisplay_planLabel [OF usage])
  from plan show "item_visible (chatResult (updateUsageDisplay now d s)) = isLimited (Some p)"
    by (simp add: updateUsageDisplay_chat_visible [OF usage])
qed

lemma premium_shown:
  assumes "quota_snapshots d = Some q \<or> quota_snapshots d = None \<and> quotaSnapshots d = Some q"
    and "premium_interactions q = Some sn \<or>
         premium_interactions q = None \<and> premiumInteractions q = Some sn"
    and "percent_remaining sn = Some r \<or> percent_remaining sn = None \<and> percentRemaining sn = Some r"
  shows "usedLabel (premiumResult (updateUsageDisplay now d s)) =
           show_int (Math_round (100 - r)) @ ''%'' \<and>
         percentLabel (premiumResult (updateUsageDisplay now d s)) = toFixed0 r @ ''% remaining'' \<and>
         width (bar (premiumResult (updateUsageDisplay now d s))) =
           Math_round (clampedPct (100 - r) / 100 * 244)"
proof -
  from assms(1) have "payload_snapshots d = Some q"
    by (auto simp add: payload_snapshots_def)
  with assms(2) have premium: "payload_premium d = Some sn"
    by (auto simp add: payload_premium_def)
  with assms(3) have r: "pctRemaining (payload_premium d) = Some r"
    by (auto simp add: pctRemaining_def)
  from premium have usage:
    "truthy (payload_plan d) \<or> payload_premium d \<noteq> None \<or> payload_chat d \<noteq> None"
    by simp
  show ?thesis
    by (simp add: updateUsageDisplay_rows [OF usage] r update_row_present)
qed

lemma chat_shown:
  assumes "quota_snapshots d = Some q \<or> quota_snapshots d = None \<and> quotaSnapshots d = Some q"
    and "chat q = Some sn"
    and "percent_remaining sn = Some r \<or> percent_remaining sn = None \<and> percentRemaining sn = Some r"
  shows "usedLabel (chatResult (updateUsageDisplay now d s)) =
           show_int (Math_round (100 - r)) @ ''%'' \<and>
         percentLabel (chatResult (updateUsageDisplay now d s)) = toFixed0 r @ ''% remaining'' \<and>
         width (bar (chatResult (updateUsageDisplay now d s))) =
           Math_round (clampedPct (100 - r) / 100 * 244)"
proof -
  from assms(1) have "payload_snapshots d = Some q"
    by (auto simp add: payload_snapshots_def)
  with assms(2) have chat: "payload_chat d = Some sn"
    by (auto simp add: payload_chat_def)
  with assms(3) have r: "pctRemaining (payload_chat d) = Some r"
    by (auto simp add: pctRemaining_def)
  from chat have usage:
    "truthy (payload_plan d) \<or> payload_premium d \<noteq> None \<or> payload_chat d \<noteq> None"
    by simp
  show ?thesis
    by (simp add: updateUsageDisplay_rows [OF usage] r update_row_present)
qed

text \<open>
  Claim C4. The plan, the snapshots container, the premium snapshot and the remaining
  percentage are each read under their snake_case key and, failing that, under their
  camelCase key; where an object carries both spellings the snake_case value is taken.
  The value so read is the one displayed: the plan label and the chat row's visibility
  come from the plan read this way, and the used label, the percent label and the bar of
  a row come from the remaining percentage read this way, through the container and the
  snapshot read this way. The display depends on the body through these values only.
\<close>

theorem payload_key_conventions:
  "(copilot_plan d = None \<longrightarrow> payload_plan d = copilotPlan d) \<and>
   (\<forall>p. copilot_plan d = Some p \<longrightarrow> payload_plan d = Some p) \<and>
   (quota_snapshots d = None \<longrightarrow> payload_snapshots d = quotaSnapshots d) \<and>
   (\<forall>q. quota_snapshots d = Some q \<longrightarrow> payload_snapshots d = Some q) \<and>
   (\<forall>q. payload_snapshots d = Some q \<longrightarrow>
      (premium_interactions q = None \<longrightarrow> payload_premium d = premiumInteractions q) \<and>
      (\<forall>x. premium_interactions q = Some x \<longrightarrow> payload_premium d = Some x)) \<and>
   (percent_remaining snap = None \<longrightarrow> pctRemaining (Some snap) = percentRemaining snap) \<and>
   (\<forall>r. percent_remaining snap = Some r \<longrightarrow> pctRemaining (Some snap) = Some r) \<and>
   (\<forall>p. (copilot_plan d = Some p \<or> copilot_plan d = None \<and> copilotPlan d = Some p) \<and> p \<noteq> []
      \<longrightarrow>
      planLabel (updateUsageDisplay now d s) = formatPlan p \<and>
      item_visible (chatResult (updateUsageDisplay now d s)) = isLimited (Some p)) \<and>
   (\<forall>q sn r.
      (quota_snapshots d = Some q \<or> quota_snapshots d = None \<and> quotaSnapshots d = Some q) \<and>
      (premium_interactions q = Some sn \<or>
       premium_interactions q = None \<and> premiumInteractions q = Some sn) \<and>
      (percent_remaining sn = Some r \<or> percent_remaining sn = None \<and> percentRemaining sn = Some r)
      \<longrightarrow>
      usedLabel (premiumResult (updateUsageDisplay now d s)) =
        show_int (Math_round (100 - r)) @ ''%'' \<and>
      percentLabel (premiumResult (updateUsageDisplay now d s)) = toFixed0 r @ ''% remaining'' \<and>
      width (bar (premiumResult (updateUsageDisplay now d s))) =
        Math_round (clampedPct (100 - r) / 100 * 244)) \<and>
   (\<forall>q sn r.
      (quota_snapshots d = Some q \<or> quota_snapshots d = None \<and> quotaSnapshots d = Some q) \<and>
      chat q = Some sn \<and>
      (percent_remaining sn = Some r \<or> percent_remaining sn = None \<and> percentRemaining sn = Some r)
      \<longrightarrow>
      usedLabel (chatResult (updateUsageDisplay now d s)) =
        show_int (Math_round (100 - r)) @ ''%'' \<and>
      percentLabel (chatResult (updateUsageDisplay now d s)) = toFixed0 r @ ''% remaining'' \<and>
      width (bar (chatResult (updateUsageDisplay now d s))) =
        Math_round (clampedPct (100 - r) / 100 * 244)) \<and>
   (\<forall>d'. payload_plan d = payload_plan d' \<and>
         (payload_premium d = None) = (payload_premium d' = None) \<and>
         (payload_chat d = None) = (payload_chat d' = None) \<and>
         pctRemaining (payload_premium d) = pctRemaining (payload_premium d') \<and>
         pctRemaining (payload_chat d) = pctRemaining (payload_chat d') \<longrightarrow>
         updateUsageDisplay now d s = updateUsageDisplay now d' s)"
proof -
  have selectors:
    "copilot_plan d = None \<longrightarrow> payload_plan d = copilotPlan d"
    "\<forall>p. copilot_plan d = Some p \<longrightarrow> payload_plan d = Some p"
    "quota_snapshots d = None \<longrightarrow> payload_snapshots d = quotaSnapshots d"
    "\<forall>q. quota_snapshots d = Some q \<longrightarrow> payload_snapshots d = Some q"
    "\<forall>q. payload_snapshots d = Some q \<longrightarrow>
      (premium_interactions q = None \<longrightarrow> payload_premium d = premiumInteractions q) \<and>
      (\<forall>x. premium_interactions q = Some x \<longrightarrow> payload_premium d = Some x)"
    "percent_remaining snap = None \<longrightarrow> pctRemaining (Some snap) = percentRemaining snap"
    "\<forall>r. percent_remaining snap = Some r \<longrightarrow> pctRemaining (Some snap) = Some r"
    by (simp_all add: payload_plan_def payload_snapshots_def payload_premium_def pctRemaining_def)
  have plan: "\<forall>p. (copilot_plan d = Some p \<or> copilot_plan d = None \<and> copilotPlan d = Some p) \<and>
        p \<noteq> [] \<longrightarrow>
      planLabel (updateUsageDisplay now d s) = formatPlan p \<and>
      item_visible (chatResult (updateUsageDisplay now d s)) = isLimited (Some p)"
    using plan_shown [of d _ now s] by blast
  have premium: "\<forall>q sn r.
      (quota_snapshots d = Some q \<or> quota_snapshots d = None \<and> quotaSnapshots d = Some q) \<and>
      (premium_interactions q = Some sn \<or>
       premium_interactions q = None \<and> premiumInteractions q = Some sn) \<and>
      (percent_remaining sn = Some r \<or> percent_remaining sn = None \<and> percentRemaining sn = Some r)
      \<longrightarrow>
      usedLabel (premiumResult (updateUsageDisplay now d s)) =
        show_int (Math_round (100 - r)) @ ''%'' \<and>
      percentLabel (premiumResult (updateUsageDisplay now d s)) = toFixed0 r @ ''% remaining'' \<and>
      width (bar (premiumResult (updateUsageDisplay now d s))) =
        Math_round (clampedPct (100 - r) / 100 * 244)"
    using premium_shown [of d _ _ _ now s] by blast
  have chat: "\<forall>q sn r.
      (quota_snapshots d = Some q \<or> quota_snapshots d = None \<and> quotaSnapshots d = Some q) \<and>
      chat q = Some sn \<and>
      (percent_remaining sn = Some r \<or> percent_remaining sn = None \<and> percentRemaining sn = Some r)
      \<longrightarrow>
      usedLabel (chatResult (updateUsageDisplay now d s)) =
        show_int (Math_round (100 - r)) @ ''%'' \<and>
      percentLabel (chatResult (updateUsageDisplay now d s)) = toFixed0 r @ ''% remaining'' \<and>
      width (bar (chatResult (updateUsageDisplay now d s))) =
        Math_round (clampedPct (100 - r) / 100 * 244)"
    using chat_shown [of d _ _ _ now s] by blast
  have depends: "\<forall>d'. payload_plan d = payload_plan d' \<and>
         (payload_premium d = None) = (payload_premium d' = None) \<and>
         (payload_chat d = None) = (payload_chat d' = None) \<and>
         pctRemaining (payload_premium d) = pctRemaining (payload_premium d') \<and>
         pctRemaining (payload_chat d) = pctRemaining (payload_chat d') \<longrightarrow>
         updateUsageDisplay now d s = updateUsageDisplay now d' s"
    by (intro allI impI updateUsageDisplay_depends) simp_all
  show ?thesis
    by (intro conjI selectors plan premium chat depends)
qed

lemma formatPlan_pro: "formatPlan ''pro'' = ''Pro''"
  by (simp add: formatPlan_def is_word_char_def toUpperCase_word_char_def char_of_eq)

theorem payload_key_conventions_witness:
  "payload_plan camel_payload = Some ''pro'' \<and>
   payload_plan both_payload = Some ''pro'' \<and>
   pctRemaining (payload_premium both_payload) = Some 80 \<and>
   planLabel (updateUsageDisplay (9, 5) both_payload buildMenu) = ''Pro'' \<and>
   \<not> item_visible (chatResult (updateUsageDisplay (9, 5) both_payload buildMenu)) \<and>
   usedLabel (premiumResult (updateUsageDisplay (9, 5) both_payload buildMenu)) = ''20%'' \<and>
   percentLabel (premiumResult (updateUsageDisplay (9, 5) both_payload buildMenu)) = ''80% remaining'' \<and>
   width (bar (premiumResult (updateUsageDisplay (9, 5) both_payload buildMenu))) = 49 \<and>
   planLabel (updateUsageDisplay (9, 5) camel_payload buildMenu) = ''Pro'' \<and>
   usedLabel (premiumResult (updateUsageDisplay (9, 5) camel_payload buildMenu)) = ''20%'' \<and>
   percentLabel (premiumResult (updateUsageDisplay (9, 5) camel_payload buildMenu)) = ''80% remaining'' \<and>
   usedLabel (chatResult (updateUsageDisplay (9, 5) over_payload buildMenu)) = ''25%'' \<and>
   updateUsageDisplay (9, 5) both_payload buildMenu = usage_shown \<and>
   updateUsageDisplay (9, 5) camel_payload buildMenu = usage_shown"
proof -
  let ?sn = "\<lparr>percent_remaining = Some 80, percentRemaining = Some 10\<rparr>"
  let ?q = "\<lparr>premium_interactions = Some ?sn,
            premiumInteractions = Some \<lparr>percent_remaining = Some 30, percentRemaining = None\<rparr>,
            chat = None\<rparr>"
  let ?sn' = "\<lparr>percent_remaining = None, percentRemaining = Some 80\<rparr>"
  let ?q' = "\<lparr>premium_interactions = None, premiumInteractions = Some ?sn', chat = None\<rparr>"
  let ?cn = "\<lparr>percent_remaining = Some 75, percentRemaining = None\<rparr>"
  let ?oq = "\<lparr>premium_interactions = Some \<lparr>percent_remaining = Some (- 20), percentRemaining = None\<rparr>,
             premiumInteractions = None, chat = Some ?cn\<rparr>"
  have c: "copilot_plan camel_payload = None" "copilotPlan camel_payload = Some ''pro''"
    by (simp_all add: camel_payload_def)
  have b: "copilot_plan both_payload = Some ''pro''"
    by (simp add: both_payload_def)
  have q: "quota_snapshots both_payload = Some ?q"
    by (simp add: both_payload_def)
  have same: "payload_plan d = payload_plan pro_payload \<and>
         (payload_premium d = None) = (payload_premium pro_payload = None) \<and>
         (payload_chat d = None) = (payload_chat pro_payload = None) \<and>
         pctRemaining (payload_premium d) = pctRemaining (payload_premium pro_payload) \<and>
         pctRemaining (payload_chat d) = pctRemaining (payload_chat pro_payload)"
    if "d = both_payload \<or> d = camel_payload" for d
    using that by (auto simp add: both_payload_selected camel_payload_selected pro_payload_selected
        pctRemaining_def)
  have 1: "payload_plan camel_payload = Some ''pro''"
    using payload_key_conventions [of camel_payload] c by simp
  have 2: "payload_plan both_payload = Some ''pro''"
    using payload_key_conventions [of both_payload] b by simp
  have "payload_premium both_payload = Some ?sn"
    using payload_key_conventions [of both_payload] q by simp
  then have 3: "pctRemaining (payload_premium both_payload) = Some 80"
    using payload_key_conventions [of both_payload ?sn] by simp
  note plan = payload_key_conventions [THEN conjunct2, THEN conjunct2, THEN conjunct2,
      THEN conjunct2, THEN conjunct2, THEN conjunct2, THEN conjunct2, THEN conjunct1, rule_format]
  note premium = payload_key_conventions [THEN conjunct2, THEN conjunct2, THEN conjunct2,
      THEN conjunct2, THEN conjunct2, THEN conjunct2, THEN conjunct2, THEN conjunct2,
      THEN conjunct1, rule_format]
  note chat = payload_key_conventions [THEN conjunct2, THEN conjunct2, THEN conjunct2,
      THEN conjunct2, THEN conjunct2, THEN conjunct2, THEN conjunct2, THEN conjunct2,
      THEN conjunct2, THEN conjunct1, rule_format]
  note last = payload_key_conventions [THEN conjunct2, THEN conjunct2, THEN conjunct2,
      THEN conjunct2, THEN conjunct2, THEN conjunct2, THEN conjunct2, THEN conjunct2,
      THEN conjunct2, THEN conjunct2, rule_format]
  have bp: "(copilot_plan both_payload = Some ''pro'' \<or>
             copilot_plan both_payload = None \<and> copilotPlan both_payload = Some ''pro'') \<and>
            ''pro'' \<noteq> []"
    by (simp add: both_payload_def)
  have cp: "(copilot_plan camel_payload = Some ''pro'' \<or>
             copilot_plan camel_payload = None \<and> copilotPlan camel_payload = Some ''pro'') \<and>
            ''pro'' \<noteq> []"
    by (simp add: camel_payload_def)
  have br: "(quota_snapshots both_payload = Some ?q \<or>
             quota_snapshots both_payload = None \<and> quotaSnapshots both_payload = Some ?q) \<and>
            (premium_interactions ?q = Some ?sn \<or>
             premium_interactions ?q = None \<and> premiumInteractions ?q = Some ?sn) \<and>
            (percent_remaining ?sn = Some 80 \<or>
             percent_remaining ?sn = None \<and> percentRemaining ?sn = Some 80)"
    by (simp add: both_payload_def)
  have cr: "(quota_snapshots camel_payload = Some ?q' \<or>
             quota_snapshots camel_payload = None \<and> quotaSnapshots camel_payload = Some ?q') \<and>
            (premium_interactions ?q' = Some ?sn' \<or>
             premium_interactions ?q' = None \<and> premiumInteractions ?q' = Some ?sn') \<and>
            (percent_remaining ?sn' = Some 80 \<or>
             percent_remaining ?sn' = None \<and> percentRemaining ?sn' = Some 80)"
    by (simp add: camel_payload_def)
  have oc: "(quota_snapshots over_payload = Some ?oq \<or>
             quota_snapshots over_payload = None \<and> quotaSnapshots over_payload = Some ?oq) \<and>
            chat ?oq = Some ?cn \<and>
            (percent_remaining ?cn = Some 75 \<or>
             percent_remaining ?cn = None \<and> percentRemaining ?cn = Some 75)"
    by (simp add: over_payload_def)
  note 4 = plan [OF bp, of "(9, 5)" buildMenu]
  note 5 = premium [OF br, of "(9, 5)" buildMenu]
  note 6 = plan [OF cp, of "(9, 5)" buildMenu]
  note 7 = premium [OF cr, of "(9, 5)" buildMenu]
  note 8 = chat [OF oc, of "(9, 5)" buildMenu]
  have 9: "updateUsageDisplay (9, 5) both_payload buildMenu = usage_shown"
    unfolding usage_shown_def by (rule last) (rule same, simp)
  have 10: "updateUsageDisplay (9, 5) camel_payload buildMenu = usage_shown"
    unfolding usage_shown_def by (rule last) (rule same, simp)
  from 1 2 3 4 5 6 7 8 9 10 show ?thesis
    by (simp add: Math_round_def show_int_def toFixed0_def clampedPct_def show_nat.simps
          digit_char_def char_of_eq formatPlan_pro isLimited_examples)
qed

section \<open>The first truthy token field\<close>

lemma apps_loop_first:
  "apps_loop data =
     (case filter truthy (map (\<lambda>(key, v). case v of None \<Rightarrow> None | Some en \<Rightarrow> oauth_token en) data)
      of [] \<Rightarrow> None | t # rest \<Rightarrow> t)"
  by (induction data rule: apps_loop.induct) (simp_all add: Let_def)

lemma oauth_entries_loop_first:
  "oauth_entries_loop entries =
     (case filter truthy
             (map (\<lambda>entry. case entry of None \<Rightarrow> None | Some en \<Rightarrow> accessToken en) entries)
      of [] \<Rightarrow> None | t # rest \<Rightarrow> t)"
  by (induction entries) (simp_all add: Let_def)

lemma first_truthy_cases:
  "(case filter truthy xs of [] \<Rightarrow> None | t # rest \<Rightarrow> t) = None \<longleftrightarrow> filter truthy xs = []"
proof (cases "filter truthy xs")
  case Nil
  then show ?thesis by simp
next
  case (Cons t rest)
  then have "t \<in> set (filter truthy xs)" by simp
  then have "truthy t" by simp
  with Cons show ?thesis by (cases t) simp_all
qed

lemma oauth_loop_first:
  "oauth_loop data =
     (case filter truthy
             (concat (map (\<lambda>(key, v). case v of
                              None \<Rightarrow> []
                            | Some entries \<Rightarrow>
                                map (\<lambda>entry. case entry of None \<Rightarrow> None
                                                            | Some en \<Rightarrow> accessToken en) entries)
                          data))
      of [] \<Rightarrow> None | t # rest \<Rightarrow> t)"
proof (induction data)
  case Nil
  then show ?case by simp
next
  case (Cons a data)
  obtain key v where a: "a = (key, v)" by (cases a)
  show ?case
  proof (cases v)
    case None
    with a Cons.IH show ?thesis by simp
  next
    case (Some entries)
    let ?fields = "map (\<lambda>entry. case entry of None \<Rightarrow> None | Some en \<Rightarrow> accessToken en) entries"
    show ?thesis
    proof (cases "filter truthy ?fields")
      case Nil
      then have "oauth_entries_loop entries = None"
        by (simp add: oauth_entries_loop_first)
      with Nil a Some Cons.IH show ?thesis by simp
    next
      case (Cons t rest)
      then have "oauth_entries_loop entries = t"
        by (simp add: oauth_entries_loop_first)
      moreover from Cons have "t \<in> set (filter truthy ?fields)" by simp
      then have "truthy t" by simp
      then obtain x where "t = Some x" by (cases t) simp_all
      ultimately show ?thesis
        using Cons a Some by simp
    qed
  qed
qed

text \<open>
  Claim C10. The extractors for hosts.json, apps.json and oauth.json hand back a token
  field of the document exactly as it stands there: the field under "github.com" for
  hosts.json, and for apps.json and oauth.json the first field, in enumeration order,
  that is a non-empty string, blanks counting like any other character. Whenever such a
  probe is the first to yield a non-empty string, the request goes out with "token "
  followed by that very string in its Authorization header. The subprocess probe yields
  its output trimmed, or nothing if that is empty; the manual token is trimmed likewise,
  and an empty one sends no request.
\<close>

theorem file_tokens_verbatim:
  "(readToken_hostsJson doc = Some t \<longleftrightarrow>
      (\<exists>data en. doc = Some data \<and> map_of data ''github.com'' = Some (Some en) \<and>
         oauth_token en = Some t)) \<and>
   (readToken_appsJson doc = Some t \<longrightarrow>
      (\<exists>data key en. doc = Some data \<and> (key, Some en) \<in> set data \<and> oauth_token en = Some t)) \<and>
   (readToken_oauthJson odoc = Some t \<longrightarrow>
      (\<exists>data key entries en. odoc = Some data \<and> (key, Some entries) \<in> set data \<and>
         Some en \<in> set entries \<and> accessToken en = Some t)) \<and>
   readToken_appsJson None = None \<and>
   readToken_appsJson (Some adata) =
     (case filter truthy
             (map (\<lambda>(key, v). case v of None \<Rightarrow> None | Some en \<Rightarrow> oauth_token en) adata)
      of [] \<Rightarrow> None | first # rest \<Rightarrow> first) \<and>
   readToken_oauthJson None = None \<and>
   readToken_oauthJson (Some odata) =
     (case filter truthy
             (concat (map (\<lambda>(key, v). case v of
                              None \<Rightarrow> []
                            | Some entries \<Rightarrow>
                                map (\<lambda>entry. case entry of None \<Rightarrow> None
                                                            | Some en \<Rightarrow> accessToken en) entries)
                          odata))
      of [] \<Rightarrow> None | first # rest \<Rightarrow> first) \<and>
   (\<not> destroyed s \<and> (k = 2 \<or> k = 3 \<or> k = 4) \<and> probe_results e ! k = Some t \<and> t \<noteq> [] \<and>
    (\<forall>j<k. \<not> truthy (probe_results e ! j)) \<longrightarrow>
      SendAndRead (request_headers t) \<in> set (trace (resolveToken e None s)) \<and>
      hd (request_headers t) = (''Authorization'', ''token '' @ t)) \<and>
   runSubprocessToken (Stdout (Some out)) = (if trim out = [] then None else Some (trim out)) \<and>
   (\<not> destroyed s \<and> (\<forall>j<5. \<not> truthy (probe_results e ! j)) \<longrightarrow>
      (if trim (github_token e) = []
       then filter is_fetch_event (trace (resolveToken e None s)) = filter is_fetch_event (trace s)
       else SendAndRead (request_headers (trim (github_token e)))
              \<in> set (trace (resolveToken e None s))))"
proof -
  have apps: "\<exists>data key en. doc = Some data \<and> (key, Some en) \<in> set data \<and> oauth_token en = Some t"
    if "readToken_appsJson doc = Some t"
  proof -
    from that obtain data where "doc = Some data" "apps_loop data = Some t"
      by (cases doc) (simp_all add: readToken_appsJson_def)
    then show ?thesis
      using apps_loop_verbatim [of data t] by blast
  qed
  have oauth: "\<exists>data key entries en. odoc = Some data \<and> (key, Some entries) \<in> set data \<and>
         Some en \<in> set entries \<and> accessToken en = Some t"
    if "readToken_oauthJson odoc = Some t"
  proof -
    from that obtain data where "odoc = Some data" "oauth_loop data = Some t"
      by (cases odoc) (simp_all add: readToken_oauthJson_def)
    then show ?thesis
      using oauth_loop_verbatim [of data t] by blast
  qed
  have from_file: "SendAndRead (request_headers t) \<in> set (trace (resolveToken e None s)) \<and>
      hd (request_headers t) = (''Authorization'', ''token '' @ t)"
    if "\<not> destroyed s" "k = 2 \<or> k = 3 \<or> k = 4" "probe_results e ! k = Some t" "t \<noteq> []"
      "\<forall>j<k. \<not> truthy (probe_results e ! j)"
  proof -
    from that(2) have "k < length (probe_results e)"
      by (auto simp add: probe_results_def)
    with that have "resolveToken e None s =
        fetchUsage e None t (s\<lparr>trace := trace s @ take (Suc k) (probe_events e)\<rparr>)"
      by (simp add: first_found)
    then have "SendAndRead (request_headers t) \<in> set (trace (resolveToken e None s))"
      by (simp add: fetchUsage_sends)
    moreover have "hd (request_headers t) = (''Authorization'', ''token '' @ t)"
      by (simp add: request_headers_def)
    ultimately show ?thesis ..
  qed
  have manual: "if trim (github_token e) = []
       then filter is_fetch_event (trace (resolveToken e None s)) = filter is_fetch_event (trace s)
       else SendAndRead (request_headers (trim (github_token e)))
              \<in> set (trace (resolveToken e None s))"
    if "\<not> destroyed s" "\<forall>j<5. \<not> truthy (probe_results e ! j)"
  proof (cases "trim (github_token e) = []")
    case True
    from that(2) have "\<not> truthy (probe_results e ! 0)" "\<not> truthy (probe_results e ! 1)"
      "\<not> truthy (probe_results e ! 2)" "\<not> truthy (probe_results e ! 3)"
      "\<not> truthy (probe_results e ! 4)"
      by simp_all
    with True show ?thesis
      by (simp add: probe_results_def resolveToken_no_fetch)
  next
    case False
    have "5 < length (probe_results e)" "probe_results e ! 5 = Some (trim (github_token e))"
      by (simp_all add: probe_results_def)
    with that False have "resolveToken e None s =
        fetchUsage e None (trim (github_token e))
          (s\<lparr>trace := trace s @ take (Suc 5) (probe_events e)\<rparr>)"
      by (simp add: first_found)
    with False show ?thesis
      by (simp add: fetchUsage_sends)
  qed
  have sub: "runSubprocessToken (Stdout (Some out)) =
      (if trim out = [] then None else Some (trim out))"
    by (simp add: runSubprocessToken_def)
  have first:
    "readToken_appsJson None = None"
    "readToken_appsJson (Some adata) =
     (case filter truthy
             (map (\<lambda>(key, v). case v of None \<Rightarrow> None | Some en \<Rightarrow> oauth_token en) adata)
      of [] \<Rightarrow> None | first # rest \<Rightarrow> first)"
    "readToken_oauthJson None = None"
    "readToken_oauthJson (Some odata) =
     (case filter truthy
             (concat (map (\<lambda>(key, v). case v of
                              None \<Rightarrow> []
                            | Some entries \<Rightarrow>
                                map (\<lambda>entry. case entry of None \<Rightarrow> None
                                                            | Some en \<Rightarrow> accessToken en) entries)
                          odata))
      of [] \<Rightarrow> None | first # rest \<Rightarrow> first)"
    by (simp_all add: readToken_appsJson_def readToken_oauthJson_def apps_loop_first
          oauth_loop_first)
  show ?thesis
    using apps oauth from_file manual
    by (intro conjI impI readToken_hostsJson_verbatim sub first) blast+
qed

lemma blank_apps_env_probes:
  "probe_results blank_apps_env = [None, None, Some [], Some '' '', None, Some ''ghp_manual'']"
  by (simp add: probe_results_def blank_apps_env_def runSubprocessToken_def readFileToken_def
      readToken_hostsJson_def readToken_appsJson_def trim_def is_space_def)

lemma blank_oauth_env_probes:
  "probe_results blank_oauth_env = [None, None, None, None, Some '' '', Some ''ghp_manual'']"
  by (simp add: probe_results_def blank_oauth_env_def runSubprocessToken_def readFileToken_def
      readToken_appsJson_def readToken_oauthJson_def trim_def is_space_def)

lemma less_3_cases: "j < (3::nat) \<Longrightarrow> j = 0 \<or> j = 1 \<or> j = 2"
  by arith

lemma less_4_cases: "j < (4::nat) \<Longrightarrow> j = 0 \<or> j = 1 \<or> j = 2 \<or> j = 3"
  by arith

theorem file_tokens_verbatim_witness:
  "readToken_hostsJson (Some [(''github.com'', Some \<lparr>oauth_token = Some ''  ''\<rparr>)]) = Some ''  '' \<and>
   SendAndRead (request_headers ''  '') \<in> set (trace (resolveToken blank_env None buildMenu)) \<and>
   hd (request_headers ''  '') = (''Authorization'', ''token   '') \<and>
   readToken_appsJson
     (Some [(''a'', Some \<lparr>oauth_token = Some []\<rparr>), (''b'', Some \<lparr>oauth_token = Some '' ''\<rparr>),
            (''c'', Some \<lparr>oauth_token = Some ''gho_later''\<rparr>)])
     = Some '' '' \<and>
   SendAndRead (request_headers '' '') \<in> set (trace (resolveToken blank_apps_env None buildMenu)) \<and>
   hd (request_headers '' '') = (''Authorization'', ''token  '') \<and>
   readToken_oauthJson
     (Some [(''x'', None),
            (''https://github.com/login/oauth'',
             Some [None, Some \<lparr>accessToken = Some '' ''\<rparr>, Some \<lparr>accessToken = Some ''gho_later''\<rparr>])])
     = Some '' '' \<and>
   SendAndRead (request_headers '' '') \<in> set (trace (resolveToken blank_oauth_env None buildMenu)) \<and>
   runSubprocessToken (Stdout (Some (''  '' @ [CHR 0x0A]))) = None \<and>
   filter is_fetch_event (trace (resolveToken empty_env None buildMenu)) = [] \<and>
   readToken_appsJson
     (Some [(''a'', Some \<lparr>oauth_token = None\<rparr>), (''b'', Some \<lparr>oauth_token = Some '' T ''\<rparr>)])
     = Some '' T '' \<and>
   (\<exists>data key en.
      Some [(''a'', Some \<lparr>oauth_token = None\<rparr>), (''b'', Some \<lparr>oauth_token = Some '' T ''\<rparr>)]
        = Some data \<and>
      (key, Some en) \<in> set data \<and> oauth_token en = Some '' T '') \<and>
   readToken_oauthJson
     (Some [(''https://github.com/login/oauth'', Some [None, Some \<lparr>accessToken = Some ''T ''\<rparr>])])
     = Some ''T '' \<and>
   (\<exists>data key entries en.
      Some [(''https://github.com/login/oauth'', Some [None, Some \<lparr>accessToken = Some ''T ''\<rparr>])]
        = Some data \<and>
      (key, Some entries) \<in> set data \<and> Some en \<in> set entries \<and> accessToken en = Some ''T '')"
proof -
  note c2 = file_tokens_verbatim [THEN conjunct2]
  note c3 = c2 [THEN conjunct2]
  note c4 = c3 [THEN conjunct2]
  note c5 = c4 [THEN conjunct2]
  note c6 = c5 [THEN conjunct2]
  note c7 = c6 [THEN conjunct2]
  note c8 = c7 [THEN conjunct2]
  note c9 = c8 [THEN conjunct2]
  note c10 = c9 [THEN conjunct2]
  have 1: "readToken_hostsJson (Some [(''github.com'', Some \<lparr>oauth_token = Some ''  ''\<rparr>)])
             = Some ''  ''"
    by (rule file_tokens_verbatim [THEN conjunct1, THEN iffD2]) simp
  have h: "\<not> destroyed buildMenu \<and> ((2::nat) = 2 \<or> (2::nat) = 3 \<or> (2::nat) = 4) \<and>
           probe_results blank_env ! 2 = Some ''  '' \<and> ''  '' \<noteq> [] \<and>
           (\<forall>j<2. \<not> truthy (probe_results blank_env ! j))"
    by (simp add: buildMenu_live blank_env_probes less_2_cases_iff)
  note 2 = c8 [THEN conjunct1, rule_format, OF h]
  have ha: "\<not> destroyed buildMenu \<and> ((3::nat) = 2 \<or> (3::nat) = 3 \<or> (3::nat) = 4) \<and>
           probe_results blank_apps_env ! 3 = Some '' '' \<and> '' '' \<noteq> [] \<and>
           (\<forall>j<3. \<not> truthy (probe_results blank_apps_env ! j))"
    by (auto simp add: buildMenu_live blank_apps_env_probes dest!: less_3_cases)
  note 3 = c8 [THEN conjunct1, rule_format, OF ha]
  have ho: "\<not> destroyed buildMenu \<and> ((4::nat) = 2 \<or> (4::nat) = 3 \<or> (4::nat) = 4) \<and>
           probe_results blank_oauth_env ! 4 = Some '' '' \<and> '' '' \<noteq> [] \<and>
           (\<forall>j<4. \<not> truthy (probe_results blank_oauth_env ! j))"
    by (auto simp add: buildMenu_live blank_oauth_env_probes dest!: less_4_cases)
  note 4 = c8 [THEN conjunct1, rule_format, OF ho]
  have 5: "readToken_appsJson
     (Some [(''a'', Some \<lparr>oauth_token = Some []\<rparr>), (''b'', Some \<lparr>oauth_token = Some '' ''\<rparr>),
            (''c'', Some \<lparr>oauth_token = Some ''gho_later''\<rparr>)])
     = Some '' ''"
    unfolding c5 [THEN conjunct1] by simp
  have 6: "readToken_oauthJson
     (Some [(''x'', None),
            (''https://github.com/login/oauth'',
             Some [None, Some \<lparr>accessToken = Some '' ''\<rparr>, Some \<lparr>accessToken = Some ''gho_later''\<rparr>])])
     = Some '' ''"
    unfolding c7 [THEN conjunct1] by simp
  have 7: "runSubprocessToken (Stdout (Some (''  '' @ [CHR 0x0A]))) = None"
    using file_tokens_verbatim
      [where out = "''  '' @ [CHR 0x0A]", THEN conjunct2, THEN conjunct2, THEN conjunct2,
        THEN conjunct2, THEN conjunct2, THEN conjunct2, THEN conjunct2, THEN conjunct2,
        THEN conjunct1]
    by (simp add: trim_def is_space_def)
  have h5: "\<not> destroyed buildMenu \<and> (\<forall>j<5. \<not> truthy (probe_results empty_env ! j))"
    by (auto simp add: buildMenu_live empty_env_probes dest!: less_5_cases)
  have 8: "filter is_fetch_event (trace (resolveToken empty_env None buildMenu)) = []"
    using c10 [rule_format, OF h5]
    by (simp add: empty_env_def trim_def is_space_def buildMenu_live)
  have a: "readToken_appsJson
     (Some [(''a'', Some \<lparr>oauth_token = None\<rparr>), (''b'', Some \<lparr>oauth_token = Some '' T ''\<rparr>)])
     = Some '' T ''"
    unfolding c5 [THEN conjunct1] by simp
  note 9 = c2 [THEN conjunct1, rule_format, OF a]
  have o: "readToken_oauthJson
     (Some [(''https://github.com/login/oauth'', Some [None, Some \<lparr>accessToken = Some ''T ''\<rparr>])])
     = Some ''T ''"
    unfolding c7 [THEN conjunct1] by simp
  note 10 = c3 [THEN conjunct1, rule_format, OF o]
  from 1 2 3 4 5 6 7 8 a 9 o 10 show ?thesis
    by (intro conjI) (simp_all only: append.simps)
qed

end
